theory Spec2Isabelle
  imports Main "HOL-Library.Word"
begin

unbundle bit_operations_syntax

section \<open>Data model of the Wii volume reader (DiscIO/VolumeWii.cpp)\<close>

type_synonym u8 = "8 word"
type_synonym u32 = "32 word"
type_synonym u64 = "64 word"

text \<open>\<^verbatim>\<open>constexpr u64 PARTITION_DATA_OFFSET = 0x20000;\<close> (VolumeWii.cpp, line 32).\<close>

definition PARTITION_DATA_OFFSET :: u64 where
  "PARTITION_DATA_OFFSET = 0x20000"

text \<open>
  Modelled from the spec: the header DiscIO/VolumeWii.h, which declares the block geometry,
  is not among the sources. The spec gives the constants byte-exact:
  BLOCK_HEADER_SIZE = 0x400, BLOCK_DATA_SIZE = 0x7C00, BLOCK_TOTAL_SIZE = 0x8000.
\<close>

definition BLOCK_HEADER_SIZE :: u64 where
  "BLOCK_HEADER_SIZE = 0x400"

definition BLOCK_DATA_SIZE :: u64 where
  "BLOCK_DATA_SIZE = 0x7C00"

definition BLOCK_TOTAL_SIZE :: u64 where
  "BLOCK_TOTAL_SIZE = 0x8000"

definition UINT64_MAX :: u64 where
  "UINT64_MAX = 0xFFFFFFFFFFFFFFFF"

text \<open>
  Modelled from the spec: DiscIO/Volume.h (\<^verbatim>\<open>struct Partition\<close> and
  \<^verbatim>\<open>PARTITION_NONE\<close>) is not among the sources. The spec describes a partition
  descriptor as a value carrying the partition's absolute byte offset, compared by that
  offset, plus one distinguished value NONE.
\<close>

datatype Partition = PARTITION_NONE | Partition (offset: u64)

text \<open>
  The collaborators that the volume reader calls but does not define: the blob reader
  (\<^verbatim>\<open>m_pReader->Read\<close>), the ticket accessors of IOS::ES (Formats.cpp is not among
  the sources), the TMD size predicate, and the mbedtls primitives. They are parameters of
  every operation below.
  \<^item> \<open>blob_Read off len\<close> is \<^verbatim>\<open>m_pReader->Read(off, len, buf)\<close>: \<open>None\<close> when it
    returns false, otherwise the bytes it stored in \<open>buf\<close>;
  \<^item> \<open>signature_recognized\<close>, \<open>GetTitleKey\<close>, \<open>GetTitleId\<close> act on the raw
    bytes of a ticket;
  \<^item> \<open>aes_crypt_cbc ctx length iv input\<close> is
    \<^verbatim>\<open>mbedtls_aes_crypt_cbc(ctx, MBEDTLS_AES_DECRYPT, length, iv, input, output)\<close> and
    yields the output; the AES context is represented by the key it was set up with;
  \<^item> \<open>sha1 input\<close> is \<^verbatim>\<open>mbedtls_sha1(input, ilen, output)\<close>;
  \<^item> \<open>stack_u32\<close> is the indeterminate content of an uninitialised \<^verbatim>\<open>u32\<close> local.
\<close>

type_synonym aes_context = "u8 list"

record externals =
  blob_Read :: "u64 \<Rightarrow> u64 \<Rightarrow> u8 list option"
  signature_recognized :: "u8 list \<Rightarrow> bool"
  GetTitleKey :: "u8 list \<Rightarrow> u8 list"
  GetTitleId :: "u8 list \<Rightarrow> u64"
  IsValidTMDSize :: "u32 \<Rightarrow> bool"
  aes_crypt_cbc :: "aes_context \<Rightarrow> u64 \<Rightarrow> u8 list \<Rightarrow> u8 list \<Rightarrow> u8 list"
  sha1 :: "u8 list \<Rightarrow> u8 list"
  stack_u32 :: "u8 list"

text \<open>Big-endian value of a byte string (\<^verbatim>\<open>Common::swap32\<close> of the bytes as loaded).\<close>

definition from_be :: "u8 list \<Rightarrow> 'a::len word" where
  "from_be bs = foldl (\<lambda>acc b. push_bit 8 acc OR ucast b) 0 bs"

text \<open>
  Modelled from the spec: \<^verbatim>\<open>BlobReader::ReadSwapped<u32>\<close> is declared in DiscIO/Blob.h,
  which is not among the sources. The spec's \<open>read_be_u32(offset) -> Option<u32>\<close> is
  an optional-returning big-endian scalar read derived from the byte read.
\<close>

definition ReadSwapped_u32 :: "externals \<Rightarrow> u64 \<Rightarrow> u32 option" where
  "ReadSwapped_u32 env off = map_option from_be (blob_Read env off 4)"

subsection \<open>Ticket and TMD views\<close>

datatype TicketReader = TicketReader (ticket_bytes: "u8 list")

datatype TMDReader = TMDReader (tmd_bytes: "u8 list")

text \<open>
  Modelled from the spec: \<^verbatim>\<open>TicketReader::IsValid\<close> is defined in Formats.cpp, which is
  not among the sources. The spec: is_valid is true iff the buffer is exactly 0x2A4 bytes
  (\<^verbatim>\<open>sizeof(IOS::ES::Ticket)\<close>, asserted in Formats.h) and its signature type is recognized.
\<close>

definition Ticket_IsValid :: "externals \<Rightarrow> TicketReader \<Rightarrow> bool" where
  "Ticket_IsValid env t =
     (length (ticket_bytes t) = 0x2A4 \<and> signature_recognized env (ticket_bytes t))"

text \<open>
  Modelled from the spec: \<^verbatim>\<open>TMDReader::IsValid\<close> is defined in Formats.cpp, which is not
  among the sources. The spec only fixes that a TMD is at least as long as its header
  (0x1E4 bytes, asserted in Formats.h) and that the empty sentinel view is not valid.
\<close>

definition TMD_IsValid :: "TMDReader \<Rightarrow> bool" where
  "TMD_IsValid t = (0x1E4 \<le> length (tmd_bytes t))"

text \<open>
  Modelled from the spec: the sentinels \<^verbatim>\<open>INVALID_TICKET\<close> and \<^verbatim>\<open>INVALID_TMD\<close> are
  declared outside the sources; the spec says they are default-constructed empty views.
\<close>

definition INVALID_TICKET :: TicketReader where
  "INVALID_TICKET = TicketReader []"

definition INVALID_TMD :: TMDReader where
  "INVALID_TMD = TMDReader []"

subsection \<open>Volume state\<close>

text \<open>
  The members of \<^verbatim>\<open>VolumeWii\<close> that construction fills in. \<open>panic_alerts\<close> records the
  \<^verbatim>\<open>PanicAlert\<close> messages raised while constructing, in order.
\<close>

record VolumeWii =
  m_partition_keys :: "Partition \<rightharpoonup> aes_context"
  m_partition_tickets :: "Partition \<rightharpoonup> TicketReader"
  m_partition_tmds :: "Partition \<rightharpoonup> TMDReader"
  m_game_partition :: Partition
  panic_alerts :: "string list"

text \<open>The two \<^verbatim>\<open>mutable\<close> members: the one-slot cache of the last decrypted block.\<close>

record block_cache =
  m_last_decrypted_block :: u64
  m_last_decrypted_block_data :: "u8 list"

section \<open>Raw offsets (VolumeWii::PartitionOffsetToRawOffset)\<close>

fun PartitionOffsetToRawOffset :: "u64 \<Rightarrow> Partition \<Rightarrow> u64" where
  "PartitionOffsetToRawOffset off PARTITION_NONE = off"
| "PartitionOffsetToRawOffset off (Partition p_offset) =
     p_offset + PARTITION_DATA_OFFSET + (off div BLOCK_DATA_SIZE * BLOCK_TOTAL_SIZE) +
     (off mod BLOCK_DATA_SIZE)"

section \<open>Construction (VolumeWii::VolumeWii)\<close>

definition initial_volume :: VolumeWii where
  "initial_volume =
     \<lparr>m_partition_keys = Map.empty, m_partition_tickets = Map.empty,
      m_partition_tmds = Map.empty, m_game_partition = PARTITION_NONE, panic_alerts = []\<rparr>"

text \<open>
  The constructor sets \<^verbatim>\<open>m_last_decrypted_block(UINT64_MAX)\<close> and leaves the data array
  as it finds it; \<open>junk\<close> is that indeterminate content.
\<close>

definition initial_cache :: "u8 list \<Rightarrow> block_cache" where
  "initial_cache junk =
     \<lparr>m_last_decrypted_block = UINT64_MAX, m_last_decrypted_block_data = junk\<rparr>"

text \<open>
  The body of the inner loop (lines 62 to 113) for table entry \<open>i\<close>: every
  \<^verbatim>\<open>continue\<close> returns the volume as it was. \<^verbatim>\<open>i * 8\<close> is a product of a
  \<^verbatim>\<open>u32\<close> and wraps at 32 bits before it is added to the 64-bit table offset, and
  \<^verbatim>\<open>*tmd_address <<= 2\<close> shifts a \<^verbatim>\<open>u32\<close>.
\<close>

definition scan_entry :: "externals \<Rightarrow> u64 \<Rightarrow> VolumeWii \<Rightarrow> u32 \<Rightarrow> VolumeWii" where
  "scan_entry env partition_table_offset vol i =
     (case ReadSwapped_u32 env (partition_table_offset + ucast (i * 8)) of
        None \<Rightarrow> vol
      | Some read_buffer \<Rightarrow>
          let partition_offset = push_bit 2 (ucast read_buffer :: u64);
              is_game_partition =
                (m_game_partition vol = PARTITION_NONE \<and>
                 ReadSwapped_u32 env (partition_table_offset + ucast (i * 8) + 4) = Some 0)
          in
          (case blob_Read env partition_offset 0x2A4 of
             None \<Rightarrow> vol
           | Some ticket_buffer \<Rightarrow>
               let ticket = TicketReader ticket_buffer in
               if \<not> Ticket_IsValid env ticket then vol
               else
                 (case (ReadSwapped_u32 env (partition_offset + 0x2a4),
                        ReadSwapped_u32 env (partition_offset + 0x2a8)) of
                    (Some tmd_size, Some tmd_address_raw) \<Rightarrow>
                      let tmd_address = push_bit 2 tmd_address_raw in
                      if \<not> IsValidTMDSize env tmd_size
                      then vol\<lparr>panic_alerts := panic_alerts vol @ [''Invalid TMD size'']\<rparr>
                      else
                        (case blob_Read env (partition_offset + ucast tmd_address)
                                (ucast tmd_size) of
                           None \<Rightarrow> vol
                         | Some tmd_buffer \<Rightarrow>
                             let tmd = TMDReader tmd_buffer;
                                 key = GetTitleKey env ticket_buffer
                             in
                             if length key \<noteq> 16 then vol
                             else
                               let part = Partition partition_offset;
                                   stored =
                                     vol\<lparr>m_partition_keys :=
                                           (m_partition_keys vol)(part \<mapsto> key),
                                         m_partition_tickets :=
                                           (m_partition_tickets vol)(part \<mapsto> ticket),
                                         m_partition_tmds :=
                                           (m_partition_tmds vol)(part \<mapsto> tmd)\<rparr>
                               in
                               if is_game_partition
                               then stored\<lparr>m_game_partition := part\<rparr>
                               else stored)
                  | _ \<Rightarrow> vol)))"

text \<open>The body of the outer loop (lines 49 to 114) for one partition group.\<close>

definition scan_group :: "externals \<Rightarrow> VolumeWii \<Rightarrow> u32 \<Rightarrow> VolumeWii" where
  "scan_group env vol partition_group =
     (case ReadSwapped_u32 env (ucast (0x40000 + partition_group * 8)) of
        None \<Rightarrow> vol
      | Some number_of_partitions \<Rightarrow>
          (case ReadSwapped_u32 env (ucast (0x40000 + partition_group * 8 + 4)) of
             None \<Rightarrow> vol
           | Some read_buffer \<Rightarrow>
               foldl (scan_entry env (push_bit 2 (ucast read_buffer :: u64))) vol
                 (map of_nat [0..<unat number_of_partitions])))"

definition construct :: "externals \<Rightarrow> VolumeWii" where
  "construct env =
     (if ReadSwapped_u32 env 0x60 \<noteq> Some 0 then initial_volume
      else foldl (scan_group env) initial_volume (map of_nat [0..<4]))"

section \<open>Encrypted reads (VolumeWii::Read)\<close>

definition block_offset_on_disc :: "u64 \<Rightarrow> u64 \<Rightarrow> u64" where
  "block_offset_on_disc p_offset ReadOffset =
     p_offset + PARTITION_DATA_OFFSET + ReadOffset div BLOCK_DATA_SIZE * BLOCK_TOTAL_SIZE"

definition data_offset_in_block :: "u64 \<Rightarrow> u64" where
  "data_offset_in_block ReadOffset = ReadOffset mod BLOCK_DATA_SIZE"

definition copy_size :: "u64 \<Rightarrow> u64 \<Rightarrow> u64" where
  "copy_size Length ReadOffset = min Length (BLOCK_DATA_SIZE - data_offset_in_block ReadOffset)"

text \<open>
  The call of \<^verbatim>\<open>mbedtls_aes_crypt_cbc\<close> at line 151: the initialisation vector is the 16
  bytes of the block at 0x3D0, the input the \<^verbatim>\<open>BLOCK_DATA_SIZE\<close> bytes after the header.
\<close>

definition decrypt_block :: "externals \<Rightarrow> aes_context \<Rightarrow> u8 list \<Rightarrow> u8 list" where
  "decrypt_block env ctx read_buffer =
     aes_crypt_cbc env ctx BLOCK_DATA_SIZE (take 16 (drop 0x3D0 read_buffer))
       (take (unat BLOCK_DATA_SIZE) (drop (unat BLOCK_HEADER_SIZE) read_buffer))"

text \<open>
  Lines 141 to 159: unless the cache already holds the block, read and decrypt it;
  \<open>None\<close> is the \<^verbatim>\<open>return false\<close> of line 145.
\<close>

definition fetch_block ::
  "externals \<Rightarrow> aes_context \<Rightarrow> block_cache \<Rightarrow> u64 \<Rightarrow> block_cache option" where
  "fetch_block env ctx c block =
     (if m_last_decrypted_block c \<noteq> block then
        (case blob_Read env block BLOCK_TOTAL_SIZE of
           None \<Rightarrow> None
         | Some read_buffer \<Rightarrow>
             Some \<lparr>m_last_decrypted_block = block,
                   m_last_decrypted_block_data = decrypt_block env ctx read_buffer\<rparr>)
      else Some c)"

text \<open>
  The \<^verbatim>\<open>while (_Length > 0)\<close> loop. The result is the return value, the bytes stored
  through \<^verbatim>\<open>_pBuffer\<close> so far, in order, and the cache as the call leaves it.
\<close>

function Read_loop ::
  "externals \<Rightarrow> aes_context \<Rightarrow> u64 \<Rightarrow> u64 \<Rightarrow> u64 \<Rightarrow> block_cache \<Rightarrow>
   bool \<times> u8 list \<times> block_cache"
where
  "Read_loop env ctx p_offset ReadOffset Length c =
     (if 0 < Length then
        (case fetch_block env ctx c (block_offset_on_disc p_offset ReadOffset) of
           None \<Rightarrow> (False, [], c)
         | Some c' \<Rightarrow>
             (case Read_loop env ctx p_offset (ReadOffset + copy_size Length ReadOffset)
                     (Length - copy_size Length ReadOffset) c' of
                (ok, written, c'') \<Rightarrow>
                  (ok,
                   take (unat (copy_size Length ReadOffset))
                     (drop (unat (data_offset_in_block ReadOffset))
                        (m_last_decrypted_block_data c')) @ written,
                   c'')))
      else (True, [], c))"
  by pat_completeness auto
termination
proof (relation "measure (\<lambda>(env, ctx, p_offset, ReadOffset, Length, c). unat Length)")
  show "wf (measure (\<lambda>(env, ctx, p_offset, ReadOffset, Length, c). unat Length))"
    by simp
next
  fix env :: externals and ctx :: aes_context and p_offset ReadOffset Length :: u64
    and c c' :: block_cache
  assume pos: "0 < Length"
  have r: "unat (ReadOffset mod 0x7C00) = unat ReadOffset mod 31744"
    by (simp add: unat_mod_distrib)
  have "ReadOffset mod 0x7C00 \<le> (0x7C00 :: u64)"
    by (simp add: word_le_nat_alt r)
  then have room: "unat (0x7C00 - ReadOffset mod 0x7C00 :: u64) = 31744 - unat ReadOffset mod 31744"
    by (simp add: unat_sub r)
  have cs: "unat (copy_size Length ReadOffset) = min (unat Length) (31744 - unat ReadOffset mod 31744)"
    using room
    by (simp add: copy_size_def data_offset_in_block_def BLOCK_DATA_SIZE_def min_def
        word_le_nat_alt)
  have "copy_size Length ReadOffset \<le> Length"
    by (simp add: copy_size_def)
  then have "unat (Length - copy_size Length ReadOffset) = unat Length - unat (copy_size Length ReadOffset)"
    by (simp add: unat_sub)
  moreover have "0 < unat Length"
    using pos by (simp add: word_less_nat_alt)
  ultimately have "unat (Length - copy_size Length ReadOffset) < unat Length"
    using cs by simp
  then show "((env, ctx, p_offset, ReadOffset + copy_size Length ReadOffset,
               Length - copy_size Length ReadOffset, c'),
              env, ctx, p_offset, ReadOffset, Length, c)
             \<in> measure (\<lambda>(env, ctx, p_offset, ReadOffset, Length, c). unat Length)"
    by simp
qed

definition Read ::
  "externals \<Rightarrow> VolumeWii \<Rightarrow> block_cache \<Rightarrow> u64 \<Rightarrow> u64 \<Rightarrow> Partition \<Rightarrow>
   bool \<times> u8 list \<times> block_cache"
where
  "Read env vol c ReadOffset Length part =
     (if part = PARTITION_NONE then
        (case blob_Read env ReadOffset Length of
           None \<Rightarrow> (False, [], c)
         | Some bytes \<Rightarrow> (True, bytes, c))
      else
        (case m_partition_keys vol part of
           None \<Rightarrow> (False, [], c)
         | Some aes_context \<Rightarrow>
             Read_loop env aes_context (offset part) ReadOffset Length c))"

section \<open>Accessors\<close>

definition GetGamePartition :: "VolumeWii \<Rightarrow> Partition" where
  "GetGamePartition vol = m_game_partition vol"

definition GetTicket :: "VolumeWii \<Rightarrow> Partition \<Rightarrow> TicketReader" where
  "GetTicket vol part =
     (case m_partition_tickets vol part of Some t \<Rightarrow> t | None \<Rightarrow> INVALID_TICKET)"

definition GetTMD :: "VolumeWii \<Rightarrow> Partition \<Rightarrow> TMDReader" where
  "GetTMD vol part =
     (case m_partition_tmds vol part of Some t \<Rightarrow> t | None \<Rightarrow> INVALID_TMD)"

definition GetTitleID :: "externals \<Rightarrow> VolumeWii \<Rightarrow> Partition \<Rightarrow> u64 option" where
  "GetTitleID env vol part =
     (let ticket = GetTicket vol part in
      if \<not> Ticket_IsValid env ticket then None
      else Some (GetTitleId env (ticket_bytes ticket)))"

section \<open>Integrity check (VolumeWii::CheckIntegrity)\<close>

datatype warn_log =
    CouldNotReadMetadata u32
  | CouldNotReadData u32
  | HashIsInvalid u32 nat

text \<open>Lines 366 to 369: some byte of the metadata at 0x26C up to 0x280 is not zero.\<close>

definition meaningless :: "u8 list \<Rightarrow> bool" where
  "meaningless clusterMD = list_ex (\<lambda>b. b \<noteq> 0) (take (0x280 - 0x26C) (drop 0x26C clusterMD))"

text \<open>Lines 385 and 388: the SHA-1 of sub-block \<open>hashID\<close> against its 20-byte slot.\<close>

definition hash_matches :: "externals \<Rightarrow> u8 list \<Rightarrow> u8 list \<Rightarrow> nat \<Rightarrow> bool" where
  "hash_matches env clusterData clusterMD hashID =
     (take 20 (sha1 env (take 0x400 (drop (hashID * 0x400) clusterData))) =
      take 20 (drop (hashID * 20) clusterMD))"

text \<open>
  The cluster loop, for the cluster numbers still to visit. The result is the return
  value, the warnings logged and the cache.
\<close>

fun check_clusters ::
  "externals \<Rightarrow> VolumeWii \<Rightarrow> aes_context \<Rightarrow> Partition \<Rightarrow> block_cache \<Rightarrow> u32 list \<Rightarrow>
   bool \<times> warn_log list \<times> block_cache"
where
  "check_clusters env vol ctx part c [] = (True, [], c)"
| "check_clusters env vol ctx part c (clusterID # rest) =
     (let clusterOff = offset part + PARTITION_DATA_OFFSET + ucast clusterID * 0x8000 in
      case blob_Read env clusterOff 0x400 of
        None \<Rightarrow> (False, [CouldNotReadMetadata clusterID], c)
      | Some clusterMDCrypted \<Rightarrow>
          let clusterMD = aes_crypt_cbc env ctx 0x400 (replicate 16 0) clusterMDCrypted in
          if meaningless clusterMD then check_clusters env vol ctx part c rest
          else
            (case Read env vol c (ucast clusterID * 0x7C00) 0x7C00 part of
               (False, clusterData, c') \<Rightarrow> (False, [CouldNotReadData clusterID], c')
             | (True, clusterData, c') \<Rightarrow>
                 (case find (\<lambda>hashID. \<not> hash_matches env clusterData clusterMD hashID) [0..<31] of
                    Some hashID \<Rightarrow> (False, [HashIsInvalid clusterID hashID], c')
                  | None \<Rightarrow> check_clusters env vol ctx part c' rest)))"

text \<open>
  Lines 338 to 342. The return value of the read at 0x2BC is not looked at: when it fails,
  \<^verbatim>\<open>partSizeDiv4\<close> keeps its indeterminate content.
\<close>

definition nClusters :: "externals \<Rightarrow> Partition \<Rightarrow> u32" where
  "nClusters env part =
     (let partSizeDiv4 =
            (case blob_Read env (offset part + 0x2BC) 4 of
               Some bytes \<Rightarrow> bytes
             | None \<Rightarrow> stack_u32 env);
          partDataSize = (ucast (from_be partSizeDiv4 :: u32) :: u64) * 4
      in ucast (partDataSize div 0x8000))"

definition CheckIntegrity ::
  "externals \<Rightarrow> VolumeWii \<Rightarrow> block_cache \<Rightarrow> Partition \<Rightarrow> bool \<times> warn_log list \<times> block_cache"
where
  "CheckIntegrity env vol c part =
     (case m_partition_keys vol part of
        None \<Rightarrow> (False, [], c)
      | Some aes_context \<Rightarrow>
          check_clusters env vol aes_context part c
            (map of_nat [0..<unat (nClusters env part)]))"

section \<open>Partition discovery, entry by entry\<close>

text \<open>
  What the checks of the inner loop decide for table entry \<open>i\<close> of the table at
  \<open>partition_table_offset\<close>, in the order the constructor makes them: the reason for
  which the entry is skipped, or the partition offset, ticket and TMD that are stored.
  None of the checks looks at the volume built so far.
\<close>

datatype entry_error =
    PartitionOffsetUnreadable
  | TicketUnreadable
  | TicketInvalid
  | TMDLocationUnreadable
  | TMDSizeInvalid
  | TMDUnreadable
  | TitleKeyLengthNot16

definition entry_outcome ::
  "externals \<Rightarrow> u64 \<Rightarrow> u32 \<Rightarrow> entry_error + (u64 \<times> u8 list \<times> u8 list)" where
  "entry_outcome env partition_table_offset i =
     (case ReadSwapped_u32 env (partition_table_offset + ucast (i * 8)) of
        None \<Rightarrow> Inl PartitionOffsetUnreadable
      | Some read_buffer \<Rightarrow>
          let partition_offset = push_bit 2 (ucast read_buffer :: u64) in
          (case blob_Read env partition_offset 0x2A4 of
             None \<Rightarrow> Inl TicketUnreadable
           | Some ticket_buffer \<Rightarrow>
               if \<not> Ticket_IsValid env (TicketReader ticket_buffer) then Inl TicketInvalid
               else
                 (case ReadSwapped_u32 env (partition_offset + 0x2a4) of
                    None \<Rightarrow> Inl TMDLocationUnreadable
                  | Some tmd_size \<Rightarrow>
                      (case ReadSwapped_u32 env (partition_offset + 0x2a8) of
                         None \<Rightarrow> Inl TMDLocationUnreadable
                       | Some tmd_address_raw \<Rightarrow>
                           if \<not> IsValidTMDSize env tmd_size then Inl TMDSizeInvalid
                           else
                             (case blob_Read env
                                     (partition_offset + ucast (push_bit 2 tmd_address_raw))
                                     (ucast tmd_size) of
                                None \<Rightarrow> Inl TMDUnreadable
                              | Some tmd_buffer \<Rightarrow>
                                  if length (GetTitleKey env ticket_buffer) \<noteq> 16
                                  then Inl TitleKeyLengthNot16
                                  else Inr (partition_offset, ticket_buffer, tmd_buffer))))))"

text \<open>The type field of a table entry reads as zero.\<close>

definition entry_type_is_0 :: "externals \<Rightarrow> u64 \<Rightarrow> u32 \<Rightarrow> bool" where
  "entry_type_is_0 env partition_table_offset i =
     (ReadSwapped_u32 env (partition_table_offset + ucast (i * 8) + 4) = Some 0)"

text \<open>
  The table entries in the order the two loops visit them: group-major, then by index.
  A group whose count or table pointer cannot be read contributes none.
\<close>

definition group_entries :: "externals \<Rightarrow> u32 \<Rightarrow> (u64 \<times> u32) list" where
  "group_entries env partition_group =
     (case ReadSwapped_u32 env (ucast (0x40000 + partition_group * 8)) of
        None \<Rightarrow> []
      | Some number_of_partitions \<Rightarrow>
          (case ReadSwapped_u32 env (ucast (0x40000 + partition_group * 8 + 4)) of
             None \<Rightarrow> []
           | Some read_buffer \<Rightarrow>
               map (\<lambda>i. (push_bit 2 (ucast read_buffer :: u64), of_nat i))
                 [0..<unat number_of_partitions]))"

definition table_entries :: "externals \<Rightarrow> (u64 \<times> u32) list" where
  "table_entries env = concat (map (group_entries env) (map of_nat [0..<4]))"

text \<open>An entry that passes every check, with the partition it stores.\<close>

definition entry_loads :: "externals \<Rightarrow> u64 \<times> u32 \<Rightarrow> bool" where
  "entry_loads env e =
     (case e of (tbl, i) \<Rightarrow>
        (case entry_outcome env tbl i of Inr stored \<Rightarrow> True | Inl err \<Rightarrow> False))"

definition entry_partition :: "externals \<Rightarrow> u64 \<times> u32 \<Rightarrow> Partition" where
  "entry_partition env e =
     (case e of (tbl, i) \<Rightarrow>
        (case entry_outcome env tbl i of
           Inr (partition_offset, ticket_buffer, tmd_buffer) \<Rightarrow> Partition partition_offset
         | Inl err \<Rightarrow> PARTITION_NONE))"

text \<open>
  The partition a table entry points to, whether or not it can be loaded: the entry's
  first word, shifted left by two.
\<close>

definition entry_pointer :: "externals \<Rightarrow> u64 \<times> u32 \<Rightarrow> Partition" where
  "entry_pointer env e =
     (case e of (tbl, i) \<Rightarrow>
        (case ReadSwapped_u32 env (tbl + ucast (i * 8)) of
           None \<Rightarrow> PARTITION_NONE
         | Some read_buffer \<Rightarrow> Partition (push_bit 2 (ucast read_buffer))))"

text \<open>
  The game partition as the specification words it: the first partition whose type field
  is 0, in scan order, or NONE.
\<close>

definition spec_game_partition :: "externals \<Rightarrow> Partition" where
  "spec_game_partition env =
     (if ReadSwapped_u32 env 0x60 \<noteq> Some 0 then PARTITION_NONE
      else
        (case find (\<lambda>e. entry_type_is_0 env (fst e) (snd e)) (table_entries env) of
           None \<Rightarrow> PARTITION_NONE
         | Some e \<Rightarrow> entry_pointer env e))"

text \<open>
  The game partition the constructor chooses: the first entry, in scan order, that has
  type 0 and passes every check.
\<close>

definition first_loaded_type_0 :: "externals \<Rightarrow> Partition" where
  "first_loaded_type_0 env =
     (if ReadSwapped_u32 env 0x60 \<noteq> Some 0 then PARTITION_NONE
      else
        (case find (\<lambda>e. entry_loads env e \<and> entry_type_is_0 env (fst e) (snd e))
                (table_entries env) of
           None \<Rightarrow> PARTITION_NONE
         | Some e \<Rightarrow> entry_partition env e))"

section \<open>The read as the specification words it\<close>

text \<open>
  The plaintext of the cluster that holds logical offset \<open>off\<close> of the partition at
  \<open>p_offset\<close>: the 0x8000 bytes at \<open>p_offset + 0x20000 + (off / 0x7C00) * 0x8000\<close> from
  the blob reader, of which the 0x7C00 bytes from 0x400 on are decrypted with the 16 bytes
  at 0x3D0 as initialisation vector. \<open>None\<close> when the blob reader fails.
\<close>

definition plain_cluster :: "externals \<Rightarrow> aes_context \<Rightarrow> u64 \<Rightarrow> u64 \<Rightarrow> u8 list option" where
  "plain_cluster env ctx p_offset off =
     (case blob_Read env (p_offset + 0x20000 + off div 0x7C00 * 0x8000) 0x8000 of
        None \<Rightarrow> None
      | Some cluster \<Rightarrow>
          Some (aes_crypt_cbc env ctx 0x7C00 (take 16 (drop 0x3D0 cluster))
                  (take 0x7C00 (drop 0x400 cluster))))"

text \<open>
  The read without a cache, cluster by cluster: fetch and decrypt the cluster of the
  current offset, copy from \<open>off mod 0x7C00\<close> up to the end of the request or of the
  cluster, and go on behind what was copied. The result is false, with the bytes copied
  so far, as soon as a fetch fails.
\<close>

function read_spec :: "externals \<Rightarrow> aes_context \<Rightarrow> u64 \<Rightarrow> u64 \<Rightarrow> u64 \<Rightarrow> bool \<times> u8 list" where
  "read_spec env ctx p_offset off len =
     (if len = 0 then (True, [])
      else
        (case plain_cluster env ctx p_offset off of
           None \<Rightarrow> (False, [])
         | Some plain \<Rightarrow>
             (case read_spec env ctx p_offset (off + min len (0x7C00 - off mod 0x7C00))
                     (len - min len (0x7C00 - off mod 0x7C00)) of
                (ok, rest) \<Rightarrow>
                  (ok,
                   take (unat (min len (0x7C00 - off mod 0x7C00)))
                     (drop (unat (off mod 0x7C00)) plain) @ rest))))"
  by pat_completeness auto
termination
proof (relation "measure (\<lambda>(env, ctx, p_offset, off, len). unat len)")
  show "wf (measure (\<lambda>(env, ctx, p_offset, off, len). unat len))"
    by simp
next
  fix env :: externals and ctx :: aes_context and p_offset off len :: u64 and plain :: "u8 list"
  let ?n = "min len (0x7C00 - off mod 0x7C00)"
  assume "len \<noteq> 0"
  then have pos: "0 < unat len"
    by (simp add: unat_gt_0)
  have r: "unat (off mod 0x7C00) = unat off mod 31744"
    by (simp add: unat_mod_distrib)
  have "off mod 0x7C00 \<le> (0x7C00 :: u64)"
    by (simp add: word_le_nat_alt r)
  then have "unat (0x7C00 - off mod 0x7C00 :: u64) = 31744 - unat off mod 31744"
    by (simp add: unat_sub r)
  then have n: "unat ?n = min (unat len) (31744 - unat off mod 31744)"
    by (simp add: min_def word_le_nat_alt)
  have "?n \<le> len"
    by simp
  then have "unat (len - ?n) = unat len - unat ?n"
    by (simp add: unat_sub)
  then have "unat (len - ?n) < unat len"
    using pos n by simp
  then show "((env, ctx, p_offset, off + ?n, len - ?n), env, ctx, p_offset, off, len)
             \<in> measure (\<lambda>(env, ctx, p_offset, off, len). unat len)"
    by simp
qed

text \<open>
  The cache serves a request at logical offset \<open>off\<close> of a partition when, if the cached
  offset is the disc offset of the cluster of \<open>off\<close>, the cached data are the plaintext
  of that cluster under the partition's key. A cache whose offset is another one serves
  the request whatever it holds.
\<close>

definition cache_serves :: "externals \<Rightarrow> aes_context \<Rightarrow> u64 \<Rightarrow> u64 \<Rightarrow> block_cache \<Rightarrow> bool" where
  "cache_serves env ctx p_offset off c =
     (m_last_decrypted_block c = p_offset + 0x20000 + off div 0x7C00 * 0x8000 \<longrightarrow>
        plain_cluster env ctx p_offset off = Some (m_last_decrypted_block_data c))"

text \<open>The cache serves every request of the partition.\<close>

definition cache_fits :: "externals \<Rightarrow> aes_context \<Rightarrow> u64 \<Rightarrow> block_cache \<Rightarrow> bool" where
  "cache_fits env ctx p_offset c = (\<forall>off. cache_serves env ctx p_offset off c)"

section \<open>The integrity check as the specification words it\<close>

text \<open>The elements of a list from index \<open>a\<close> up to, not including, index \<open>b\<close>.\<close>

definition slice :: "'a list \<Rightarrow> nat \<Rightarrow> nat \<Rightarrow> 'a list" where
  "slice xs a b = take (b - a) (drop a xs)"

text \<open>
  The metadata of a cluster: the 0x400 bytes at \<open>p_offset + 0x20000 + cluster * 0x8000\<close>
  from the blob reader, decrypted with an all-zero initialisation vector. \<open>None\<close> when the
  blob reader fails.
\<close>

definition metadata_plain :: "externals \<Rightarrow> aes_context \<Rightarrow> u64 \<Rightarrow> u32 \<Rightarrow> u8 list option" where
  "metadata_plain env ctx p_offset cluster =
     (case blob_Read env (p_offset + 0x20000 + ucast cluster * 0x8000) 0x400 of
        None \<Rightarrow> None
      | Some md_cipher \<Rightarrow> Some (aes_crypt_cbc env ctx 0x400 (replicate 16 0) md_cipher))"

text \<open>The metadata mark a hole: some byte of \<open>md_plain[0x26C..0x280]\<close> is not zero.\<close>

definition marks_hole :: "u8 list \<Rightarrow> bool" where
  "marks_hole md_plain = list_ex (\<lambda>b. b \<noteq> 0) (slice md_plain 0x26C 0x280)"

text \<open>
  The SHA-1 of the sub-block \<open>payload[hash_id * 0x400 .. (hash_id + 1) * 0x400]\<close>, 20
  bytes, is the slot \<open>md_plain[hash_id * 20 .. (hash_id + 1) * 20]\<close>.
\<close>

definition hash_agrees :: "externals \<Rightarrow> u8 list \<Rightarrow> u8 list \<Rightarrow> nat \<Rightarrow> bool" where
  "hash_agrees env payload md_plain hash_id =
     (take 20 (sha1 env (slice payload (hash_id * 0x400) ((hash_id + 1) * 0x400))) =
      slice md_plain (hash_id * 20) ((hash_id + 1) * 20))"

text \<open>
  What the check finds wrong with one cluster, if anything: its metadata cannot be read;
  or, the metadata not marking a hole, the read without a cache of the 0x7C00 bytes at
  logical offset \<open>cluster * 0x7C00\<close> fails, or the SHA-1 of one of the 31 sub-blocks of
  these bytes differs from its slot in the metadata (the first such sub-block is
  reported). A hole is never found wrong, and none of its hashes is looked at.
\<close>

definition cluster_verdict :: "externals \<Rightarrow> aes_context \<Rightarrow> u64 \<Rightarrow> u32 \<Rightarrow> warn_log option" where
  "cluster_verdict env ctx p_offset cluster =
     (case metadata_plain env ctx p_offset cluster of
        None \<Rightarrow> Some (CouldNotReadMetadata cluster)
      | Some md_plain \<Rightarrow>
          if marks_hole md_plain then None
          else
            (case read_spec env ctx p_offset (ucast cluster * 0x7C00) 0x7C00 of
               (False, payload) \<Rightarrow> Some (CouldNotReadData cluster)
             | (True, payload) \<Rightarrow>
                 (case find (\<lambda>hash_id. \<not> hash_agrees env payload md_plain hash_id) [0..<31] of
                    None \<Rightarrow> None
                  | Some hash_id \<Rightarrow> Some (HashIsInvalid cluster hash_id))))"

text \<open>The first thing found wrong, going through a list.\<close>

fun first_failure :: "('a \<Rightarrow> 'b option) \<Rightarrow> 'a list \<Rightarrow> 'b option" where
  "first_failure verdict [] = None"
| "first_failure verdict (x # xs) =
     (case verdict x of Some w \<Rightarrow> Some w | None \<Rightarrow> first_failure verdict xs)"

text \<open>
  The first cluster of a list whose payload the check reads: the first one whose metadata
  do not mark a hole, unless the metadata of it or of an earlier cluster cannot be read.
\<close>

fun first_payload_read :: "externals \<Rightarrow> aes_context \<Rightarrow> u64 \<Rightarrow> u32 list \<Rightarrow> u32 option" where
  "first_payload_read env ctx p_offset [] = None"
| "first_payload_read env ctx p_offset (cluster # rest) =
     (case metadata_plain env ctx p_offset cluster of
        None \<Rightarrow> None
      | Some md_plain \<Rightarrow>
          if marks_hole md_plain then first_payload_read env ctx p_offset rest
          else Some cluster)"

text \<open>
  The cache serves the check of a list of clusters when it serves the first read of a
  payload, if there is one.
\<close>

definition cache_serves_check ::
  "externals \<Rightarrow> aes_context \<Rightarrow> u64 \<Rightarrow> u32 list \<Rightarrow> block_cache \<Rightarrow> bool" where
  "cache_serves_check env ctx p_offset clusters c =
     (case first_payload_read env ctx p_offset clusters of
        None \<Rightarrow> True
      | Some cluster \<Rightarrow> cache_serves env ctx p_offset (ucast cluster * 0x7C00) c)"

section \<open>The cache over sequences of calls\<close>

text \<open>
  The two operations that touch the cache, as calls, and the cache a call leaves.
\<close>

datatype call = ReadCall u64 u64 Partition | CheckIntegrityCall Partition

definition run_call :: "externals \<Rightarrow> VolumeWii \<Rightarrow> block_cache \<Rightarrow> call \<Rightarrow> block_cache" where
  "run_call env vol c cl =
     (case cl of
        ReadCall off len part \<Rightarrow> snd (snd (Read env vol c off len part))
      | CheckIntegrityCall part \<Rightarrow> snd (snd (CheckIntegrity env vol c part)))"

text \<open>
  The cache buffer holds the decryption, with a given key, of the 0x7C00-byte data region
  of the cluster that starts at the cached disc offset: the blob reader yields the 0x8000
  bytes there, and the buffer is the decryption of the bytes from 0x400 on with the 16
  bytes at 0x3D0 as initialisation vector.
\<close>

definition holds_decryption :: "externals \<Rightarrow> aes_context \<Rightarrow> block_cache \<Rightarrow> bool" where
  "holds_decryption env ctx c =
     (case blob_Read env (m_last_decrypted_block c) 0x8000 of
        None \<Rightarrow> False
      | Some cluster \<Rightarrow>
          m_last_decrypted_block_data c =
            aes_crypt_cbc env ctx 0x7C00 (take 16 (drop 0x3D0 cluster))
              (take 0x7C00 (drop 0x400 cluster)))"

text \<open>
  The number of clusters the integrity check walks: the big-endian \<open>u32\<close> at
  \<open>p_offset + 0x2BC\<close>, times 4, divided by 0x8000; computed from the content of the local
  variable when the four bytes cannot be read.
\<close>

definition n_clusters :: "externals \<Rightarrow> u64 \<Rightarrow> nat" where
  "n_clusters env p_offset =
     (case blob_Read env (p_offset + 0x2BC) 4 of
        Some size_bytes \<Rightarrow> unat (from_be size_bytes :: u32) * 4 div 0x8000
      | None \<Rightarrow> unat (from_be (stack_u32 env) :: u32) * 4 div 0x8000)"

text \<open>
  A call addresses logical offset \<open>addr\<close> of a partition: a read of that partition whose
  request, \<open>len\<close> bytes from \<open>off\<close> on, covers \<open>addr\<close>; or a check of that partition, when \<open>addr\<close>
  lies in one of the clusters the check walks.
\<close>

definition call_asks :: "externals \<Rightarrow> call \<Rightarrow> Partition \<Rightarrow> u64 \<Rightarrow> bool" where
  "call_asks env cl part addr =
     (case cl of
        ReadCall off len p \<Rightarrow> p = part \<and> addr - off < len
      | CheckIntegrityCall p \<Rightarrow> p = part \<and> unat addr div 0x7C00 < n_clusters env (offset p))"

text \<open>
  The cache is as a call has loaded it for logical offset \<open>addr\<close> of a partition: the
  partition is one of the map, the call addresses this offset of it, the cached disc
  offset is that of the cluster of this offset, and the buffer holds the decryption of
  that cluster with the key of this partition.
\<close>

definition loaded_for ::
  "externals \<Rightarrow> VolumeWii \<Rightarrow> call \<Rightarrow> Partition \<Rightarrow> u64 \<Rightarrow> block_cache \<Rightarrow> bool" where
  "loaded_for env vol cl part addr c =
     (part \<noteq> PARTITION_NONE \<and>
      call_asks env cl part addr \<and>
      m_last_decrypted_block c = offset part + 0x20000 + addr div 0x7C00 * 0x8000 \<and>
      (case m_partition_keys vol part of
         None \<Rightarrow> False
       | Some ctx \<Rightarrow> holds_decryption env ctx c))"

text \<open>
  A partition contains the cluster at a disc offset when that offset is
  \<open>p.offset + 0x20000 + k * 0x8000\<close> for a cluster number \<open>k\<close> within the partition's data
  size, the big-endian \<open>u32\<close> at \<open>p.offset + 0x2BC\<close> times 4.
\<close>

definition partition_contains :: "externals \<Rightarrow> Partition \<Rightarrow> u64 \<Rightarrow> bool" where
  "partition_contains env part block =
     (case blob_Read env (offset part + 0x2BC) 4 of
        None \<Rightarrow> False
      | Some size_bytes \<Rightarrow>
          list_ex (\<lambda>k. block = offset part + 0x20000 + of_nat k * 0x8000)
            [0..<unat (from_be size_bytes :: u32) * 4 div 0x8000])"

section \<open>Auxiliary notions for the proofs\<close>

text \<open>One step of the scan, on a table entry given as a pair.\<close>

definition scan_step :: "externals \<Rightarrow> VolumeWii \<Rightarrow> u64 \<times> u32 \<Rightarrow> VolumeWii" where
  "scan_step env vol e = scan_entry env (fst e) vol (snd e)"

text \<open>The three maps always have the same keys, and NONE is never one of them.\<close>

definition maps_agree :: "VolumeWii \<Rightarrow> bool" where
  "maps_agree vol =
     (dom (m_partition_tickets vol) = dom (m_partition_keys vol) \<and>
      dom (m_partition_tmds vol) = dom (m_partition_keys vol) \<and>
      PARTITION_NONE \<notin> dom (m_partition_keys vol))"

text \<open>Prefixing the bytes of one iteration to what the rest of the loop yields.\<close>

definition after_bytes ::
  "u8 list \<Rightarrow> bool \<times> u8 list \<times> block_cache \<Rightarrow> bool \<times> u8 list \<times> block_cache" where
  "after_bytes written r = (case r of (ok, rest, c) \<Rightarrow> (ok, written @ rest, c))"

text \<open>The bytes of the cached block from \<open>off\<close> on, \<open>n\<close> of them.\<close>

definition chunk :: "block_cache \<Rightarrow> u64 \<Rightarrow> u64 \<Rightarrow> u8 list" where
  "chunk c off n =
     take (unat n) (drop (unat (data_offset_in_block off)) (m_last_decrypted_block_data c))"

text \<open>
  A first read followed, when it succeeds, by a second one from the cache it leaves; the
  bytes of the two in sequence.
\<close>

definition then_read ::
  "bool \<times> u8 list \<times> block_cache \<Rightarrow> (block_cache \<Rightarrow> bool \<times> u8 list \<times> block_cache) \<Rightarrow>
   bool \<times> u8 list \<times> block_cache" where
  "then_read r continue =
     (case r of (ok, written, c) \<Rightarrow> if ok then after_bytes written (continue c) else (False, written, c))"

section \<open>A small disc image for concrete instances\<close>

text \<open>
  An image with the partition table of group 0 at 0x40020 holding two entries of type 0,
  for partitions at 0x50000 and 0x58000. Their tickets are filled with 0 and with 2,
  each TMD is 0x208 bytes at 0x300 into the partition, each partition declares one
  cluster of data, and everything else below 0x80000 reads as zero bytes. At and beyond
  0x80000 either no read succeeds, or (\<open>beyond\<close>) every read yields bytes of value 1.
\<close>

definition disc_Read :: "bool \<Rightarrow> u64 \<Rightarrow> u64 \<Rightarrow> u8 list option" where
  "disc_Read beyond off len =
     (if off = 0x60 then Some [0, 0, 0, 0]
      else if off = 0x40000 then Some [0, 0, 0, 2]
      else if off = 0x40004 then Some [0, 1, 0, 8]
      else if off = 0x40020 then Some [0, 1, 0x40, 0]
      else if off = 0x40024 then Some [0, 0, 0, 0]
      else if off = 0x40028 then Some [0, 1, 0x60, 0]
      else if off = 0x4002C then Some [0, 0, 0, 0]
      else if off = 0x58000 \<and> len = 0x2A4 then Some (replicate 0x2A4 2)
      else if off = 0x502A4 \<or> off = 0x582A4 then Some [0, 0, 2, 8]
      else if off = 0x502A8 \<or> off = 0x582A8 then Some [0, 0, 0, 0xC0]
      else if off = 0x502BC \<or> off = 0x582BC then Some [0, 0, 0x20, 0]
      else if 0x80000 \<le> off then (if beyond then Some (replicate (unat len) 1) else None)
      else Some (replicate (unat len) 0))"

text \<open>
  The collaborators for the image: a ticket is recognized when \<open>recognized\<close> holds of
  its first byte, a TMD size is valid when \<open>valid_size\<close> holds of it, the title key of a
  ticket is its first 16 bytes, the stand-in for the block cipher adds the first key byte
  to every input byte, and the stand-in for the hash repeats the first input byte.
\<close>

definition disc_env :: "(u8 \<Rightarrow> bool) \<Rightarrow> (u32 \<Rightarrow> bool) \<Rightarrow> bool \<Rightarrow> externals" where
  "disc_env recognized valid_size beyond =
     \<lparr>blob_Read = disc_Read beyond,
      signature_recognized = (\<lambda>bytes. recognized (hd bytes)),
      GetTitleKey = take 16,
      GetTitleId = (\<lambda>bytes. 0x0001000148415858),
      IsValidTMDSize = valid_size,
      aes_crypt_cbc = (\<lambda>ctx len iv input. map (\<lambda>b. b + hd ctx) (take (unat len) input)),
      sha1 = (\<lambda>input. replicate 20 (hd input)),
      stack_u32 = [0, 0, 0, 0]\<rparr>"

text \<open>
  The image with every ticket recognized and the size bounds of the specification
  (at least the 0x1E4 bytes of the header, at most 4 MiB), ending at 0x80000; the same
  image readable everywhere; the image whose zero-filled ticket is not recognized; the
  image on which no TMD size is valid.
\<close>

definition good_disc :: externals where
  "good_disc = disc_env (\<lambda>b. True) (\<lambda>size. 0x1E4 \<le> size \<and> size \<le> 0x400000) False"

definition endless_disc :: externals where
  "endless_disc = disc_env (\<lambda>b. True) (\<lambda>size. 0x1E4 \<le> size \<and> size \<le> 0x400000) True"

definition bad_ticket_disc :: externals where
  "bad_ticket_disc =
     disc_env (\<lambda>b. b \<noteq> 0) (\<lambda>size. 0x1E4 \<le> size \<and> size \<le> 0x400000) False"

definition bad_tmd_disc :: externals where
  "bad_tmd_disc = disc_env (\<lambda>b. True) (\<lambda>size. False) False"

section \<open>Properties of construction\<close>

lemma scan_entry_outcome:
  "scan_entry env tbl vol i =
     (case entry_outcome env tbl i of
        Inl err \<Rightarrow>
          (if err = TMDSizeInvalid
           then vol\<lparr>panic_alerts := panic_alerts vol @ [''Invalid TMD size'']\<rparr>
           else vol)
      | Inr (partition_offset, ticket_buffer, tmd_buffer) \<Rightarrow>
          vol\<lparr>m_partition_keys :=
                (m_partition_keys vol)(Partition partition_offset \<mapsto> GetTitleKey env ticket_buffer),
              m_partition_tickets :=
                (m_partition_tickets vol)(Partition partition_offset \<mapsto> TicketReader ticket_buffer),
              m_partition_tmds :=
                (m_partition_tmds vol)(Partition partition_offset \<mapsto> TMDReader tmd_buffer),
              m_game_partition :=
                (if m_game_partition vol = PARTITION_NONE \<and> entry_type_is_0 env tbl i
                 then Partition partition_offset else m_game_partition vol)\<rparr>)"
  by (simp add: scan_entry_def entry_outcome_def entry_type_is_0_def Let_def
      split: option.split)

lemma scan_group_entries:
  "scan_group env vol g = foldl (scan_step env) vol (group_entries env g)"
  by (simp add: scan_group_def group_entries_def scan_step_def foldl_map split: option.split)

lemma construct_entries:
  assumes "ReadSwapped_u32 env 0x60 = Some 0"
  shows "construct env = foldl (scan_step env) initial_volume (table_entries env)"
proof -
  have "foldl (scan_group env) vol gs = foldl (scan_step env) vol (concat (map (group_entries env) gs))"
    for vol gs
    by (induction gs arbitrary: vol) (simp_all add: scan_group_entries)
  then show ?thesis
    using assms by (simp add: construct_def table_entries_def)
qed

lemma scan_step_game:
  "m_game_partition (scan_step env vol e) =
     (if m_game_partition vol = PARTITION_NONE \<and> entry_loads env e \<and>
         entry_type_is_0 env (fst e) (snd e)
      then entry_partition env e else m_game_partition vol)"
  by (cases e)
     (simp add: scan_step_def scan_entry_outcome entry_loads_def entry_partition_def
        split: sum.split)

lemma entry_partition_not_NONE:
  "entry_loads env e \<Longrightarrow> entry_partition env e \<noteq> PARTITION_NONE"
  by (cases e) (auto simp: entry_loads_def entry_partition_def split: sum.splits)

lemma scan_game:
  "m_game_partition (foldl (scan_step env) vol es) =
     (if m_game_partition vol \<noteq> PARTITION_NONE then m_game_partition vol
      else
        (case find (\<lambda>e. entry_loads env e \<and> entry_type_is_0 env (fst e) (snd e)) es of
           None \<Rightarrow> PARTITION_NONE
         | Some e \<Rightarrow> entry_partition env e))"
proof (induction es arbitrary: vol)
  case Nil
  then show ?case by simp
next
  case (Cons e es)
  show ?case
    by (simp add: Cons.IH scan_step_game entry_partition_not_NONE)
qed

lemma scan_step_keys:
  "dom (m_partition_keys (scan_step env vol e)) =
     dom (m_partition_keys vol) \<union> (if entry_loads env e then {entry_partition env e} else {})"
  by (cases e)
     (simp add: scan_step_def scan_entry_outcome entry_loads_def entry_partition_def
        split: sum.split)

lemma scan_keys:
  "dom (m_partition_keys (foldl (scan_step env) vol es)) =
     dom (m_partition_keys vol) \<union> entry_partition env ` {e \<in> set es. entry_loads env e}"
proof (induction es arbitrary: vol)
  case Nil
  then show ?case by simp
next
  case (Cons e es)
  show ?case
    by (auto simp: Cons.IH scan_step_keys)
qed

lemma scan_step_alerts:
  "panic_alerts (scan_step env vol e) =
     panic_alerts vol @
     (if entry_outcome env (fst e) (snd e) = Inl TMDSizeInvalid then [''Invalid TMD size'']
      else [])"
  by (cases e) (simp add: scan_step_def scan_entry_outcome split: sum.split)

lemma scan_alerts:
  "panic_alerts (foldl (scan_step env) vol es) =
     panic_alerts vol @
     map (\<lambda>e. ''Invalid TMD size'')
       (filter (\<lambda>e. entry_outcome env (fst e) (snd e) = Inl TMDSizeInvalid) es)"
proof (induction es arbitrary: vol)
  case Nil
  then show ?case by simp
next
  case (Cons e es)
  show ?case
    by (simp add: Cons.IH scan_step_alerts)
qed

lemma scan_step_maps_agree:
  "maps_agree vol \<Longrightarrow> maps_agree (scan_step env vol e)"
  by (cases e)
     (auto simp: maps_agree_def scan_step_def scan_entry_outcome split: sum.split)

lemma scan_maps_agree:
  "maps_agree vol \<Longrightarrow> maps_agree (foldl (scan_step env) vol es)"
  by (induction es arbitrary: vol) (simp_all add: scan_step_maps_agree)

lemma construct_maps_agree: "maps_agree (construct env)"
proof (cases "ReadSwapped_u32 env 0x60 = Some 0")
  case True
  have "maps_agree initial_volume"
    by (simp add: maps_agree_def initial_volume_def)
  then show ?thesis
    by (simp add: construct_entries [OF True] scan_maps_agree)
next
  case False
  then show ?thesis
    by (simp add: construct_def maps_agree_def initial_volume_def)
qed

subsection \<open>The disc image, evaluated\<close>

lemma from_be_zeros: "from_be (replicate n 0) = 0"
proof -
  have "foldl (\<lambda>acc b. push_bit 8 acc OR ucast b) (0 :: 'a :: len word) (replicate n (0 :: u8)) = 0"
    by (induction n) simp_all
  then show ?thesis by (simp add: from_be_def)
qed

lemma from_be_4:
  "from_be [a, b, c, d] =
     push_bit 8 (push_bit 8 (push_bit 8 (ucast a) OR ucast b) OR ucast c) OR ucast d"
  by (simp add: from_be_def)

lemma disc_magic: "ReadSwapped_u32 (disc_env r v e) 0x60 = Some 0"
  by (simp add: ReadSwapped_u32_def disc_env_def disc_Read_def from_be_4 from_be_zeros)

lemma disc_table_entries: "table_entries (disc_env r v e) = [(0x40020, 0), (0x40020, 1)]"
  by (simp add: table_entries_def group_entries_def ReadSwapped_u32_def disc_env_def
      disc_Read_def from_be_4 from_be_zeros upt_conv_Cons)

lemma disc_entry_types:
  "entry_type_is_0 (disc_env r v e) 0x40020 0" "entry_type_is_0 (disc_env r v e) 0x40020 1"
  by (simp_all add: entry_type_is_0_def ReadSwapped_u32_def disc_env_def disc_Read_def
      from_be_4 from_be_zeros)

lemma disc_entry_0:
  "entry_outcome (disc_env r v e) 0x40020 0 =
     (if \<not> r 0 then Inl TicketInvalid
      else if \<not> v 0x208 then Inl TMDSizeInvalid
      else Inr (0x50000, replicate 0x2A4 0, replicate 0x208 0))"
  by (simp add: entry_outcome_def ReadSwapped_u32_def disc_env_def disc_Read_def from_be_4 from_be_zeros
      Ticket_IsValid_def Let_def)

lemma disc_entry_1:
  "entry_outcome (disc_env r v e) 0x40020 1 =
     (if \<not> r 2 then Inl TicketInvalid
      else if \<not> v 0x208 then Inl TMDSizeInvalid
      else Inr (0x58000, replicate 0x2A4 2, replicate 0x208 0))"
  by (simp add: entry_outcome_def ReadSwapped_u32_def disc_env_def disc_Read_def from_be_4 from_be_zeros
      Ticket_IsValid_def Let_def)

lemma disc_env_sel:
  "blob_Read (disc_env r v e) = disc_Read e"
  "signature_recognized (disc_env r v e) = (\<lambda>bytes. r (hd bytes))"
  "GetTitleKey (disc_env r v e) = take 16"
  "IsValidTMDSize (disc_env r v e) = v"
  "aes_crypt_cbc (disc_env r v e) = (\<lambda>ctx len iv input. map (\<lambda>b. b + hd ctx) (take (unat len) input))"
  "sha1 (disc_env r v e) = (\<lambda>input. replicate 20 (hd input))"
  by (simp_all add: disc_env_def)

lemma disc_construct:
  "construct (disc_env r v e) =
     scan_entry (disc_env r v e) 0x40020 (scan_entry (disc_env r v e) 0x40020 initial_volume 0) 1"
  by (simp add: construct_entries [OF disc_magic] disc_table_entries scan_step_def)

lemma all_good_construct:
  "construct (disc_env (\<lambda>b. True) (\<lambda>size. 0x1E4 \<le> size \<and> size \<le> 0x400000) e) =
     \<lparr>m_partition_keys =
        [Partition 0x50000 \<mapsto> replicate 16 0, Partition 0x58000 \<mapsto> replicate 16 2],
      m_partition_tickets =
        [Partition 0x50000 \<mapsto> TicketReader (replicate 0x2A4 0),
         Partition 0x58000 \<mapsto> TicketReader (replicate 0x2A4 2)],
      m_partition_tmds =
        [Partition 0x50000 \<mapsto> TMDReader (replicate 0x208 0),
         Partition 0x58000 \<mapsto> TMDReader (replicate 0x208 0)],
      m_game_partition = Partition 0x50000,
      panic_alerts = []\<rparr>"
  unfolding disc_construct
  by (simp add: scan_entry_outcome disc_entry_0 disc_entry_1 disc_entry_types
      initial_volume_def disc_env_sel)

lemmas good_disc_construct = all_good_construct [of False, folded good_disc_def]

lemmas endless_disc_construct = all_good_construct [of True, folded endless_disc_def]

lemma bad_ticket_disc_construct:
  "construct bad_ticket_disc =
     \<lparr>m_partition_keys = [Partition 0x58000 \<mapsto> replicate 16 2],
      m_partition_tickets = [Partition 0x58000 \<mapsto> TicketReader (replicate 0x2A4 2)],
      m_partition_tmds = [Partition 0x58000 \<mapsto> TMDReader (replicate 0x208 0)],
      m_game_partition = Partition 0x58000,
      panic_alerts = []\<rparr>"
  unfolding bad_ticket_disc_def disc_construct
  by (simp add: scan_entry_outcome disc_entry_0 disc_entry_1 disc_entry_types
      initial_volume_def disc_env_sel)

lemma bad_tmd_disc_construct:
  "construct bad_tmd_disc =
     initial_volume\<lparr>panic_alerts := [''Invalid TMD size'', ''Invalid TMD size'']\<rparr>"
  unfolding bad_tmd_disc_def disc_construct
  by (simp add: scan_entry_outcome disc_entry_0 disc_entry_1 initial_volume_def)

section \<open>Properties of the read loop\<close>

declare Read_loop.simps [simp del]

lemma unat_data_offset_in_block:
  "unat (data_offset_in_block off) = unat off mod 31744"
  by (simp add: data_offset_in_block_def BLOCK_DATA_SIZE_def unat_mod_distrib)

lemma unat_copy_size:
  "unat (copy_size len off) = min (unat len) (31744 - unat off mod 31744)"
proof -
  have "data_offset_in_block off \<le> BLOCK_DATA_SIZE"
    by (simp add: word_le_nat_alt unat_data_offset_in_block BLOCK_DATA_SIZE_def)
  then have "unat (BLOCK_DATA_SIZE - data_offset_in_block off) = 31744 - unat off mod 31744"
    by (simp add: unat_sub unat_data_offset_in_block BLOCK_DATA_SIZE_def)
  then show ?thesis
    by (simp add: copy_size_def min_def word_le_nat_alt)
qed

lemma copy_size_le: "copy_size len off \<le> len"
  by (simp add: copy_size_def)

lemma unat_minus_copy_size:
  "unat (len - copy_size len off) = unat len - unat (copy_size len off)"
  by (simp add: unat_sub copy_size_le)

lemma after_bytes_simps [simp]:
  "after_bytes written (ok, rest, c) = (ok, written @ rest, c)"
  "after_bytes [] r = r"
  "after_bytes xs (after_bytes ys r) = after_bytes (xs @ ys) r"
  by (simp_all add: after_bytes_def split: prod.split)

lemma Read_loop_0: "Read_loop env ctx p off 0 c = (True, [], c)"
  by (simp add: Read_loop.simps)

lemma Read_loop_pos:
  "0 < len \<Longrightarrow>
   Read_loop env ctx p off len c =
     (case fetch_block env ctx c (block_offset_on_disc p off) of
        None \<Rightarrow> (False, [], c)
      | Some c' \<Rightarrow>
          after_bytes (chunk c' off (copy_size len off))
            (Read_loop env ctx p (off + copy_size len off) (len - copy_size len off) c'))"
  by (subst Read_loop.simps) (simp add: after_bytes_def chunk_def split: option.split)

lemma fetch_block_again:
  "fetch_block env ctx c block = Some c' \<Longrightarrow>
   m_last_decrypted_block c' = block \<and> fetch_block env ctx c' block = Some c'"
  by (auto simp: fetch_block_def split: if_splits option.splits)

lemma div_mod_same_block:
  fixes a k :: nat
  assumes "a mod m + k < m"
  shows "(a + k) div m = a div m" and "(a + k) mod m = a mod m + k"
proof -
  have m: "0 < m" using assms by (cases m) auto
  have "a + k = a div m * m + (a mod m + k)"
    by simp
  then have d: "(a + k) div m = a div m + (a mod m + k) div m"
    by (metis div_mult_self3 m less_numeral_extra(3))
  show "(a + k) div m = a div m"
    using d assms by simp
  have "(a + k) mod m = (a mod m + k) mod m"
    by (simp add: mod_add_left_eq)
  then show "(a + k) mod m = a mod m + k"
    using assms by simp
qed

lemma same_block:
  assumes room: "unat off mod 31744 + unat k < 31744"
    and fits: "unat off + unat k < 2 ^ 64"
  shows "block_offset_on_disc p (off + k) = block_offset_on_disc p off"
    and "unat (data_offset_in_block (off + k)) = unat off mod 31744 + unat k"
proof -
  have sum: "unat (off + k) = unat off + unat k"
    using fits unat_add_lem [of off k] by simp
  have "unat ((off + k) div BLOCK_DATA_SIZE) = unat (off div BLOCK_DATA_SIZE)"
    by (simp add: BLOCK_DATA_SIZE_def unat_div_distrib sum div_mod_same_block(1) [OF room])
  then have "(off + k) div BLOCK_DATA_SIZE = off div BLOCK_DATA_SIZE"
    by (simp add: word_unat_eq_iff)
  then show "block_offset_on_disc p (off + k) = block_offset_on_disc p off"
    by (simp add: block_offset_on_disc_def)
  show "unat (data_offset_in_block (off + k)) = unat off mod 31744 + unat k"
    by (simp add: unat_data_offset_in_block sum div_mod_same_block(2) [OF room])
qed

lemma chunk_append:
  assumes "unat j \<le> unat n" and "unat (data_offset_in_block off') = unat (data_offset_in_block off) + unat j"
  shows "chunk c off n = chunk c off j @ chunk c off' (n - j)"
proof -
  have le: "j \<le> n"
    using assms(1) by (simp add: word_le_nat_alt)
  have n: "unat n = unat j + unat (n - j)"
    using le assms(1) by (simp add: unat_sub)
  show ?thesis
    unfolding chunk_def assms(2) n
    by (simp add: take_add add.commute)
qed

lemma Read_loop_partial_step:
  assumes pos: "0 < j" and le: "j \<le> copy_size n off" and fits: "unat off + unat n \<le> 2 ^ 64"
    and fetch: "fetch_block env ctx c (block_offset_on_disc p off) = Some c'"
  shows "Read_loop env ctx p off n c =
     after_bytes (chunk c' off j) (Read_loop env ctx p (off + j) (n - j) c')"
proof -
  let ?cs = "copy_size n off"
  have "0 < ?cs"
    using pos le by simp
  then have npos: "0 < n"
    using copy_size_le [of n off] by auto
  have whole: "Read_loop env ctx p off n c =
      after_bytes (chunk c' off ?cs) (Read_loop env ctx p (off + ?cs) (n - ?cs) c')"
    by (simp add: Read_loop_pos [OF npos] fetch)
  show ?thesis
  proof (cases "j = ?cs")
    case True
    then show ?thesis using whole by simp
  next
    case False
    then have "j < ?cs"
      using le by simp
    then have lt: "unat j < min (unat n) (31744 - unat off mod 31744)"
      by (simp add: word_less_nat_alt unat_copy_size)
    have room: "unat off mod 31744 + unat j < 31744"
      using lt by linarith
    have fits': "unat off + unat j < 2 ^ 64"
      using lt fits by linarith
    have jn: "j \<le> n"
      using lt by (simp add: word_le_nat_alt)
    have rest: "unat (n - j) = unat n - unat j"
      using jn by (simp add: unat_sub)
    then have restpos: "0 < n - j"
      using lt by (simp add: word_less_nat_alt)
    note blk = same_block [OF room fits']
    have hit: "fetch_block env ctx c' (block_offset_on_disc p (off + j)) = Some c'"
      using fetch_block_again [OF fetch] by (simp add: blk(1))
    have "min (unat n - unat j) (31744 - (unat off mod 31744 + unat j)) =
        min (unat n) (31744 - unat off mod 31744) - unat j"
      by linarith
    then have "unat (copy_size (n - j) (off + j)) = unat ?cs - unat j"
      using blk(2) by (simp add: unat_copy_size rest unat_data_offset_in_block)
    moreover have "unat (?cs - j) = unat ?cs - unat j"
      using le by (simp add: unat_sub)
    ultimately have cs': "copy_size (n - j) (off + j) = ?cs - j"
      by (simp add: word_unat_eq_iff)
    have next_step: "Read_loop env ctx p (off + j) (n - j) c' =
        after_bytes (chunk c' (off + j) (?cs - j)) (Read_loop env ctx p (off + ?cs) (n - ?cs) c')"
      by (simp add: Read_loop_pos [OF restpos] hit cs')
    have "unat j \<le> unat ?cs"
      using le by (simp add: word_le_nat_alt)
    moreover have "unat (data_offset_in_block (off + j)) = unat (data_offset_in_block off) + unat j"
      using blk(2) by (simp add: unat_data_offset_in_block)
    ultimately have "chunk c' off ?cs = chunk c' off j @ chunk c' (off + j) (?cs - j)"
      by (rule chunk_append)
    then show ?thesis
      by (simp add: whole next_step)
  qed
qed

lemma then_read_simps [simp]:
  "then_read (True, written, c) continue = after_bytes written (continue c)"
  "then_read (False, written, c) continue = (False, written, c)"
  by (simp_all add: then_read_def)

lemma then_read_after_bytes:
  "then_read (after_bytes bs r) continue = after_bytes bs (then_read r continue)"
  by (cases r) (simp add: then_read_def)

text \<open>
  Reading \<open>n\<close> bytes is reading the first \<open>k\<close> and then, from the cache this leaves,
  the remaining \<open>n - k\<close>, as long as the request does not run past the end of the 64-bit
  offsets.
\<close>

lemma Read_loop_split:
  assumes "k \<le> n" and "unat off + unat n \<le> 2 ^ 64"
  shows "Read_loop env ctx p off n c =
     then_read (Read_loop env ctx p off k c) (Read_loop env ctx p (off + k) (n - k))"
  using assms
proof (induction env ctx p off k c arbitrary: n rule: Read_loop.induct)
  case (1 env ctx p off k c)
  show ?case
  proof (cases "0 < k")
    case False
    then have "k = 0" by (simp add: word_greater_zero_iff)
    then show ?thesis by (simp add: Read_loop_0)
  next
    case True
    let ?j = "copy_size k off"
    have npos: "0 < n"
      using True "1.prems"(1) by auto
    show ?thesis
    proof (cases "fetch_block env ctx c (block_offset_on_disc p off)")
      case None
      then show ?thesis
        by (simp add: Read_loop_pos [OF True] Read_loop_pos [OF npos])
    next
      case (Some c')
      have kn: "unat k \<le> unat n"
        using "1.prems"(1) by (simp add: word_le_nat_alt)
      have jpos: "0 < ?j"
        using True by (simp add: word_less_nat_alt unat_copy_size)
      have "unat ?j \<le> unat (copy_size n off)"
        using kn by (simp add: unat_copy_size)
      then have jle: "?j \<le> copy_size n off"
        by (simp add: word_le_nat_alt)
      have jk: "unat ?j \<le> unat k"
        by (simp add: unat_copy_size)
      have full: "Read_loop env ctx p off n c =
          after_bytes (chunk c' off ?j) (Read_loop env ctx p (off + ?j) (n - ?j) c')"
        by (rule Read_loop_partial_step [OF jpos jle "1.prems"(2) Some])
      have first: "Read_loop env ctx p off k c =
          after_bytes (chunk c' off ?j) (Read_loop env ctx p (off + ?j) (k - ?j) c')"
        by (simp add: Read_loop_pos [OF True] Some)
      have sub: "k - ?j \<le> n - ?j"
        using kn jk by (simp add: word_le_nat_alt unat_sub)
      have "unat (off + ?j) \<le> unat off + unat ?j"
        by (simp add: unat_word_ariths)
      moreover have "unat (n - ?j) = unat n - unat ?j"
        using kn jk by (simp add: unat_sub word_le_nat_alt)
      ultimately have fits: "unat (off + ?j) + unat (n - ?j) \<le> 2 ^ 64"
        using "1.prems"(2) kn jk by simp
      have ih: "Read_loop env ctx p (off + ?j) (n - ?j) c' =
          then_read (Read_loop env ctx p (off + ?j) (k - ?j) c')
            (Read_loop env ctx p (off + ?j + (k - ?j)) (n - ?j - (k - ?j)))"
        by (rule "1.IH" [OF True Some sub fits])
      show ?thesis
        by (simp add: full first ih then_read_after_bytes)
    qed
  qed
qed

subsection \<open>Reads on the disc image, evaluated\<close>

lemma disc_fetch_miss:
  assumes "block = 0x70000 \<or> block = 0x78000" and "m_last_decrypted_block c \<noteq> block"
  shows "fetch_block (disc_env r v e) ctx c block =
     Some \<lparr>m_last_decrypted_block = block,
           m_last_decrypted_block_data = replicate 0x7C00 (hd ctx)\<rparr>"
  using assms
  by (auto simp: fetch_block_def disc_env_sel disc_Read_def decrypt_block_def
      BLOCK_TOTAL_SIZE_def BLOCK_DATA_SIZE_def BLOCK_HEADER_SIZE_def)

lemma disc_fetch_beyond:
  assumes "0x80000 \<le> block" and "m_last_decrypted_block c \<noteq> block"
  shows "fetch_block (disc_env r v e) ctx c block =
     (if e then Some \<lparr>m_last_decrypted_block = block,
                      m_last_decrypted_block_data = replicate 0x7C00 (1 + hd ctx)\<rparr>
      else None)"
proof -
  have "\<not> block \<le> 0x7FFFF"
    using assms(1) by (simp add: word_le_nat_alt)
  then have "disc_Read e block BLOCK_TOTAL_SIZE =
      (if e then Some (replicate 0x8000 1) else None)"
    using assms(1) by (auto simp: disc_Read_def BLOCK_TOTAL_SIZE_def)
  then show ?thesis
    using assms(2)
    by (simp add: fetch_block_def disc_env_sel decrypt_block_def
        BLOCK_TOTAL_SIZE_def BLOCK_DATA_SIZE_def BLOCK_HEADER_SIZE_def)
qed

lemma disc_fetch_hit:
  "m_last_decrypted_block c = block \<Longrightarrow> fetch_block env ctx c block = Some c"
  by (simp add: fetch_block_def)

lemmas geometry_defs =
  block_offset_on_disc_def data_offset_in_block_def copy_size_def chunk_def
  PARTITION_DATA_OFFSET_def BLOCK_DATA_SIZE_def BLOCK_TOTAL_SIZE_def

lemma good_disc_key:
  "m_partition_keys (construct good_disc) (Partition 0x50000) = Some (replicate 16 0)"
  "m_partition_keys (construct good_disc) (Partition 0x58000) = Some (replicate 16 2)"
  by (simp_all add: good_disc_construct)

lemma good_disc_read_across:
  "Read good_disc (construct good_disc) (initial_cache junk) 0x7BFE 4 (Partition 0x50000) =
     (True, replicate 2 0 @ replicate 2 0,
      \<lparr>m_last_decrypted_block = 0x78000, m_last_decrypted_block_data = replicate 0x7C00 0\<rparr>)"
  unfolding good_disc_def
  by (simp add: Read_def good_disc_key [unfolded good_disc_def] Read_loop_pos Read_loop_0
      geometry_defs disc_fetch_miss initial_cache_def UINT64_MAX_def)

lemma good_disc_read_one:
  "Read good_disc (construct good_disc) (initial_cache junk) 0x7BFE 1 (Partition 0x50000) =
     (True, replicate 1 0,
      \<lparr>m_last_decrypted_block = 0x70000, m_last_decrypted_block_data = replicate 0x7C00 0\<rparr>)"
  unfolding good_disc_def
  by (simp add: Read_def good_disc_key [unfolded good_disc_def] Read_loop_pos Read_loop_0
      geometry_defs disc_fetch_miss initial_cache_def UINT64_MAX_def)

lemma good_disc_read_rest:
  "Read good_disc (construct good_disc)
     \<lparr>m_last_decrypted_block = 0x70000, m_last_decrypted_block_data = replicate 0x7C00 0\<rparr>
     0x7BFF 3 (Partition 0x50000) =
     (True, replicate 1 0 @ replicate 2 0,
      \<lparr>m_last_decrypted_block = 0x78000, m_last_decrypted_block_data = replicate 0x7C00 0\<rparr>)"
  unfolding good_disc_def
  by (simp add: Read_def good_disc_key [unfolded good_disc_def] Read_loop_pos Read_loop_0
      geometry_defs disc_fetch_miss disc_fetch_hit)

lemma good_disc_read_last_cluster:
  "Read good_disc (construct good_disc) (initial_cache junk) 0xF7FC 4 (Partition 0x50000) =
     (True, replicate 4 0,
      \<lparr>m_last_decrypted_block = 0x78000, m_last_decrypted_block_data = replicate 0x7C00 0\<rparr>)"
  unfolding good_disc_def
  by (simp add: Read_def good_disc_key [unfolded good_disc_def] Read_loop_pos Read_loop_0
      geometry_defs disc_fetch_miss initial_cache_def UINT64_MAX_def)

lemma endless_disc_key:
  "m_partition_keys (construct endless_disc) (Partition 0x50000) = Some (replicate 16 0)"
  by (simp add: endless_disc_construct)

lemma endless_disc_read_wrapping:
  "Read endless_disc (construct endless_disc) (initial_cache junk) 0xFFFFFFFFFFFFFFF6 20
     (Partition 0x50000) =
     (True, replicate 20 1,
      \<lparr>m_last_decrypted_block = 0x8421084210F0000,
        m_last_decrypted_block_data = replicate 0x7C00 1\<rparr>)"
  unfolding endless_disc_def
  by (simp add: Read_def endless_disc_key [unfolded endless_disc_def] Read_loop_pos Read_loop_0
      geometry_defs disc_fetch_beyond initial_cache_def UINT64_MAX_def)

lemma endless_disc_read_before_wrap:
  "Read endless_disc (construct endless_disc) (initial_cache junk) 0xFFFFFFFFFFFFFFF6 10
     (Partition 0x50000) =
     (True, replicate 10 1,
      \<lparr>m_last_decrypted_block = 0x8421084210F0000,
        m_last_decrypted_block_data = replicate 0x7C00 1\<rparr>)"
  unfolding endless_disc_def
  by (simp add: Read_def endless_disc_key [unfolded endless_disc_def] Read_loop_pos Read_loop_0
      geometry_defs disc_fetch_beyond initial_cache_def UINT64_MAX_def)

lemma endless_disc_read_after_wrap:
  "Read endless_disc (construct endless_disc)
     \<lparr>m_last_decrypted_block = 0x8421084210F0000,
       m_last_decrypted_block_data = replicate 0x7C00 1\<rparr>
     0 10 (Partition 0x50000) =
     (True, replicate 10 0,
      \<lparr>m_last_decrypted_block = 0x70000, m_last_decrypted_block_data = replicate 0x7C00 0\<rparr>)"
  unfolding endless_disc_def
  by (simp add: Read_def endless_disc_key [unfolded endless_disc_def] Read_loop_pos Read_loop_0
      geometry_defs disc_fetch_miss)

subsection \<open>A failing loop has served a prefix\<close>

lemma Read_loop_failure:
  assumes "Read_loop env ctx p off n c = (False, written, c')"
  shows "\<exists>k. k < n \<and> Read_loop env ctx p off k c = (True, written, c') \<and>
             fetch_block env ctx c' (block_offset_on_disc p (off + k)) = None"
  using assms
proof (induction env ctx p off n c arbitrary: written rule: Read_loop.induct)
  case (1 env ctx p off n c)
  have pos: "0 < n"
  proof (rule ccontr)
    assume "\<not> 0 < n"
    then have "n = 0"
      by (simp add: word_greater_zero_iff)
    then show False
      using "1.prems" by (simp add: Read_loop_0)
  qed
  let ?cs = "copy_size n off"
  show ?case
  proof (cases "fetch_block env ctx c (block_offset_on_disc p off)")
    case None
    then have "written = []" and "c' = c"
      using "1.prems" by (simp_all add: Read_loop_pos [OF pos])
    then have "0 < n \<and> Read_loop env ctx p off 0 c = (True, written, c') \<and>
        fetch_block env ctx c' (block_offset_on_disc p (off + 0)) = None"
      using pos None by (simp add: Read_loop_0)
    then show ?thesis
      by blast
  next
    case (Some c1)
    obtain ok rest c'' where rest:
      "Read_loop env ctx p (off + ?cs) (n - ?cs) c1 = (ok, rest, c'')"
      by (cases "Read_loop env ctx p (off + ?cs) (n - ?cs) c1") auto
    have whole: "Read_loop env ctx p off n c = (ok, chunk c1 off ?cs @ rest, c'')"
      by (simp add: Read_loop_pos [OF pos] Some rest)
    then have ok: "\<not> ok" and written: "written = chunk c1 off ?cs @ rest" and c'': "c'' = c'"
      using "1.prems" by simp_all
    have "Read_loop env ctx p (off + ?cs) (n - ?cs) c1 = (False, rest, c')"
      using rest ok c'' by simp
    from "1.IH" [OF pos Some this]
    obtain k' where k': "k' < n - ?cs"
      and served: "Read_loop env ctx p (off + ?cs) k' c1 = (True, rest, c')"
      and fails: "fetch_block env ctx c' (block_offset_on_disc p (off + ?cs + k')) = None"
      by blast
    have lt: "unat k' < unat n - unat ?cs"
      using k' by (simp add: word_less_nat_alt unat_minus_copy_size)
    then have room: "unat ?cs = 31744 - unat off mod 31744"
      by (simp add: unat_copy_size min_def split: if_splits)
    have "unat ?cs + unat k' < unat n"
      using lt by linarith
    moreover have "unat n < 2 ^ 64"
      using unsigned_less [of n, where 'a = nat] by simp
    ultimately have "unat ?cs + unat k' < 2 ^ LENGTH(64)"
      by simp
    then have sum: "unat (?cs + k') = unat ?cs + unat k'"
      using unat_add_lem [of ?cs k'] by blast
    have kn: "?cs + k' < n"
      using lt by (simp add: word_less_nat_alt sum)
    have "0 < unat ?cs"
      by (simp add: room)
    then have kpos: "0 < ?cs + k'"
      by (simp add: word_less_nat_alt sum)
    have "unat (copy_size (?cs + k') off) = unat ?cs"
      using room by (simp add: unat_copy_size [of "?cs + k'"] sum)
    then have cs: "copy_size (?cs + k') off = ?cs"
      by (simp add: word_unat_eq_iff)
    have "Read_loop env ctx p off (?cs + k') c = (True, written, c')"
      by (simp add: Read_loop_pos [OF kpos] Some cs served written)
    moreover have "fetch_block env ctx c' (block_offset_on_disc p (off + (?cs + k'))) = None"
      using fails by (simp add: add.assoc)
    ultimately show ?thesis
      using kn by blast
  qed
qed

lemma good_disc_read_failing:
  "Read good_disc (construct good_disc) (initial_cache junk) 0x7BFC 8 (Partition 0x58000) =
     (False, replicate 4 2,
      \<lparr>m_last_decrypted_block = 0x78000, m_last_decrypted_block_data = replicate 0x7C00 2\<rparr>)"
  unfolding good_disc_def
  by (simp add: Read_def good_disc_key [unfolded good_disc_def] Read_loop_pos Read_loop_0
      geometry_defs disc_fetch_miss disc_fetch_beyond initial_cache_def UINT64_MAX_def)

lemma good_disc_read_served:
  "Read good_disc (construct good_disc) (initial_cache junk) 0x7BFC 4 (Partition 0x58000) =
     (True, replicate 4 2,
      \<lparr>m_last_decrypted_block = 0x78000, m_last_decrypted_block_data = replicate 0x7C00 2\<rparr>)"
  unfolding good_disc_def
  by (simp add: Read_def good_disc_key [unfolded good_disc_def] Read_loop_pos Read_loop_0
      geometry_defs disc_fetch_miss initial_cache_def UINT64_MAX_def)

section \<open>The read with the cache and the read without\<close>

declare read_spec.simps [simp del]

lemma plain_cluster_decrypt:
  "plain_cluster env ctx p off =
     map_option (decrypt_block env ctx)
       (blob_Read env (block_offset_on_disc p off) BLOCK_TOTAL_SIZE)"
  by (simp add: plain_cluster_def decrypt_block_def geometry_defs BLOCK_HEADER_SIZE_def
      split: option.split)

lemma plain_cluster_same_block:
  "block_offset_on_disc p off = block_offset_on_disc p off' \<Longrightarrow>
   plain_cluster env ctx p off = plain_cluster env ctx p off'"
  by (simp add: plain_cluster_decrypt)

lemma cache_serves_block:
  "cache_serves env ctx p off c =
     (m_last_decrypted_block c = block_offset_on_disc p off \<longrightarrow>
        plain_cluster env ctx p off = Some (m_last_decrypted_block_data c))"
  by (simp add: cache_serves_def geometry_defs)

lemma cache_fits_serves: "cache_fits env ctx p c \<Longrightarrow> cache_serves env ctx p off c"
  by (simp add: cache_fits_def)

lemma holds_plain_cluster_fits:
  assumes "m_last_decrypted_block c = block_offset_on_disc p off"
    and "plain_cluster env ctx p off = Some (m_last_decrypted_block_data c)"
  shows "cache_fits env ctx p c"
  unfolding cache_fits_def cache_serves_block
  using assms plain_cluster_same_block [of p off _ env ctx] by metis

lemma fetch_block_serves:
  assumes "cache_serves env ctx p off c"
  shows "(case fetch_block env ctx c (block_offset_on_disc p off) of
            None \<Rightarrow> plain_cluster env ctx p off = None
          | Some c' \<Rightarrow>
              m_last_decrypted_block c' = block_offset_on_disc p off \<and>
              plain_cluster env ctx p off = Some (m_last_decrypted_block_data c') \<and>
              cache_fits env ctx p c')"
proof (cases "fetch_block env ctx c (block_offset_on_disc p off)")
  case None
  then show ?thesis
    by (auto simp: fetch_block_def plain_cluster_decrypt split: option.splits if_splits)
next
  case (Some c')
  have block: "m_last_decrypted_block c' = block_offset_on_disc p off"
    using Some by (auto simp: fetch_block_def split: option.splits if_splits)
  have plain: "plain_cluster env ctx p off = Some (m_last_decrypted_block_data c')"
  proof (cases "m_last_decrypted_block c = block_offset_on_disc p off")
    case True
    then show ?thesis
      using Some assms by (simp add: fetch_block_def cache_serves_block)
  next
    case False
    then show ?thesis
      using Some by (auto simp: fetch_block_def plain_cluster_decrypt split: option.splits)
  qed
  show ?thesis
    using block plain holds_plain_cluster_fits [OF block plain] by (simp add: Some)
qed

lemma read_spec_0: "read_spec env ctx p off 0 = (True, [])"
  by (simp add: read_spec.simps)

lemma read_spec_pos:
  "len \<noteq> 0 \<Longrightarrow>
   read_spec env ctx p off len =
     (case plain_cluster env ctx p off of
        None \<Rightarrow> (False, [])
      | Some plain \<Rightarrow>
          (case read_spec env ctx p (off + copy_size len off) (len - copy_size len off) of
             (ok, rest) \<Rightarrow>
               (ok, take (unat (copy_size len off)) (drop (unat (off mod 0x7C00)) plain) @ rest)))"
  unfolding copy_size_def data_offset_in_block_def BLOCK_DATA_SIZE_def
  by (subst read_spec.simps) simp

text \<open>
  The loop against the read without a cache. Only the cluster of the first byte is asked
  of the cache at entry: every later cluster is met with the cache the loop itself left.
\<close>

lemma Read_loop_spec_first:
  assumes "0 < len \<longrightarrow> cache_serves env ctx p off c"
  shows "(case Read_loop env ctx p off len c of
            (ok, bytes, c') \<Rightarrow>
              (ok, bytes) = read_spec env ctx p off len \<and>
              (c' = c \<or> cache_fits env ctx p c') \<and>
              (ok \<and> 0 < len \<longrightarrow> cache_fits env ctx p c'))"
  using assms
proof (induction env ctx p off len c rule: Read_loop.induct)
  case (1 env ctx p off len c)
  show ?case
  proof (cases "0 < len")
    case False
    then have "len = 0"
      by (simp add: word_greater_zero_iff)
    then show ?thesis
      by (simp add: Read_loop_0 read_spec_0)
  next
    case True
    then have nz: "len \<noteq> 0"
      by auto
    have serves: "cache_serves env ctx p off c"
      using "1.prems" True by simp
    note fetch = fetch_block_serves [OF serves]
    show ?thesis
    proof (cases "fetch_block env ctx c (block_offset_on_disc p off)")
      case None
      then show ?thesis
        using fetch nz by (simp add: Read_loop_pos [OF True] read_spec_pos)
    next
      case (Some c')
      then have plain: "plain_cluster env ctx p off = Some (m_last_decrypted_block_data c')"
        and fits: "cache_fits env ctx p c'"
        using fetch by simp_all
      obtain ok rest c'' where rest:
        "Read_loop env ctx p (off + copy_size len off) (len - copy_size len off) c' =
           (ok, rest, c'')"
        by (cases "Read_loop env ctx p (off + copy_size len off) (len - copy_size len off) c'")
          auto
      have next_serves: "0 < len - copy_size len off \<longrightarrow>
          cache_serves env ctx p (off + copy_size len off) c'"
        using fits by (simp add: cache_fits_serves)
      have "(ok, rest) = read_spec env ctx p (off + copy_size len off) (len - copy_size len off) \<and>
          (c'' = c' \<or> cache_fits env ctx p c'')"
        using "1.IH" [OF True Some next_serves] rest by simp
      then have spec: "read_spec env ctx p (off + copy_size len off) (len - copy_size len off) =
          (ok, rest)" and fits'': "cache_fits env ctx p c''"
        using fits by auto
      show ?thesis
        using nz fits''
        by (simp add: Read_loop_pos [OF True] Some rest read_spec_pos plain spec chunk_def
            data_offset_in_block_def BLOCK_DATA_SIZE_def)
    qed
  qed
qed

lemma Read_loop_spec:
  assumes "cache_fits env ctx p c"
  shows "(case Read_loop env ctx p off len c of
            (ok, bytes, c') \<Rightarrow>
              (ok, bytes) = read_spec env ctx p off len \<and> cache_fits env ctx p c')"
proof -
  have "0 < len \<longrightarrow> cache_serves env ctx p off c"
    using assms by (simp add: cache_fits_serves)
  from Read_loop_spec_first [OF this] show ?thesis
    using assms by (auto split: prod.splits)
qed

text \<open>
  A request within one cluster that the cache holds is copied from the cache: the blob
  reader is not asked and nothing is decrypted.
\<close>

lemma Read_loop_hit:
  assumes "m_last_decrypted_block c = block_offset_on_disc p off"
    and "0 < len" and "len \<le> BLOCK_DATA_SIZE - data_offset_in_block off"
  shows "Read_loop env ctx p off len c =
     (True, take (unat len) (drop (unat (data_offset_in_block off)) (m_last_decrypted_block_data c)), c)"
proof -
  have cs: "copy_size len off = len"
    using assms(3) by (simp add: copy_size_def min_def)
  show ?thesis
    using assms(1)
    by (simp add: Read_loop_pos [OF assms(2)] fetch_block_def cs Read_loop_0 chunk_def)
qed

text \<open>Every partition the constructor stores starts at a multiple of four.\<close>

lemma entry_partition_even:
  "entry_loads env e \<Longrightarrow> even (offset (entry_partition env e))"
  by (cases e)
     (auto simp: entry_loads_def entry_partition_def entry_outcome_def Let_def
        split: sum.splits option.splits if_splits)

lemma construct_keys_even:
  assumes "m_partition_keys (construct env) part = Some ctx"
  shows "part \<noteq> PARTITION_NONE \<and> even (offset part)"
proof (cases "ReadSwapped_u32 env 0x60 = Some 0")
  case True
  have "part \<in> dom (m_partition_keys (construct env))"
    using assms by auto
  then have "part \<in> entry_partition env ` {e \<in> set (table_entries env). entry_loads env e}"
    by (simp add: construct_entries [OF True] scan_keys initial_volume_def)
  then show ?thesis
    using entry_partition_even entry_partition_not_NONE by auto
next
  case False
  then show ?thesis
    using assms by (simp add: construct_def initial_volume_def)
qed

lemma even_block: "even p \<Longrightarrow> even (block_offset_on_disc p off)"
  by (simp add: geometry_defs)

lemma even_block_is_not_the_sentinel:
  assumes "even p"
  shows "block_offset_on_disc p off \<noteq> UINT64_MAX"
    and "UINT64_MAX \<noteq> block_offset_on_disc p off"
proof -
  have "odd UINT64_MAX"
    by (simp add: UINT64_MAX_def)
  then show "block_offset_on_disc p off \<noteq> UINT64_MAX"
    using even_block [OF assms, of off] by metis
  then show "UINT64_MAX \<noteq> block_offset_on_disc p off"
    by metis
qed

lemma initial_cache_fits:
  "even p \<Longrightarrow> cache_fits env ctx p (initial_cache junk)"
  by (simp add: cache_fits_def cache_serves_block initial_cache_def
      even_block_is_not_the_sentinel)

lemma good_disc_read_second_cluster:
  "Read good_disc (construct good_disc) (initial_cache junk) 0x7C00 1 (Partition 0x50000) =
     (True, replicate 1 0,
      \<lparr>m_last_decrypted_block = 0x78000, m_last_decrypted_block_data = replicate 0x7C00 0\<rparr>)"
  unfolding good_disc_def
  by (simp add: Read_def good_disc_key [unfolded good_disc_def] Read_loop_pos Read_loop_0
      geometry_defs disc_fetch_miss initial_cache_def UINT64_MAX_def)

lemma good_disc_read_stale:
  "Read good_disc (construct good_disc)
     \<lparr>m_last_decrypted_block = 0x78000, m_last_decrypted_block_data = replicate 0x7C00 0\<rparr>
     0 1 (Partition 0x58000) =
     (True, replicate 1 0,
      \<lparr>m_last_decrypted_block = 0x78000, m_last_decrypted_block_data = replicate 0x7C00 0\<rparr>)"
  unfolding good_disc_def
  by (simp add: Read_def good_disc_key [unfolded good_disc_def] Read_loop_pos Read_loop_0
      geometry_defs disc_fetch_hit)

lemma good_disc_read_spec_other_key:
  "read_spec good_disc (replicate 16 2) 0x58000 0 1 = (True, replicate 1 2)"
  unfolding good_disc_def
  by (simp add: read_spec_pos read_spec_0 plain_cluster_def disc_env_sel disc_Read_def
      geometry_defs)

lemma endless_disc_key_second:
  "m_partition_keys (construct endless_disc) (Partition 0x58000) = Some (replicate 16 2)"
  by (simp add: endless_disc_construct)

lemma endless_disc_read_second_partition:
  "Read endless_disc (construct endless_disc)
     \<lparr>m_last_decrypted_block = 0x70000, m_last_decrypted_block_data = replicate 0x7C00 0\<rparr>
     0x7BFE 4 (Partition 0x58000) =
     (True, replicate 2 2 @ replicate 2 3,
      \<lparr>m_last_decrypted_block = 0x80000, m_last_decrypted_block_data = replicate 0x7C00 3\<rparr>)"
  unfolding endless_disc_def
  by (simp add: Read_def endless_disc_key_second [unfolded endless_disc_def] Read_loop_pos
      Read_loop_0 geometry_defs disc_fetch_miss disc_fetch_beyond)

lemma good_disc_stale_cache_does_not_serve:
  "\<not> cache_serves good_disc (replicate 16 2) 0x58000 0
       \<lparr>m_last_decrypted_block = 0x78000, m_last_decrypted_block_data = replicate 0x7C00 0\<rparr>"
  unfolding good_disc_def
  by (simp add: cache_serves_def plain_cluster_def disc_env_sel disc_Read_def)

section \<open>The integrity check, cluster by cluster\<close>

lemma first_failure_None:
  "first_failure verdict xs = None \<longleftrightarrow> list_all (\<lambda>x. verdict x = None) xs"
  by (induction xs) (auto split: option.splits)

lemma unat_ucast_32_64: "unat (ucast (x :: u32) :: u64) = unat x"
proof -
  have "unat x < 2 ^ 32"
    using unsigned_less [of x] by simp
  then have "unat x < 2 ^ 64"
    by simp
  then show ?thesis
    by (simp add: unsigned_ucast_eq take_bit_nat_eq_self)
qed

lemma unat_cluster_offset:
  fixes cluster :: u32
  shows "unat (ucast cluster * 0x7C00 :: u64) = unat cluster * 31744"
proof -
  note up = unat_ucast_32_64 [of cluster]
  have "unat cluster < 2 ^ 32"
    using unsigned_less [of cluster] by simp
  then have "unat (ucast cluster :: u64) * unat (0x7C00 :: u64) < 2 ^ 64"
    by (simp add: up)
  then show ?thesis
    using unat_mult_lem [of "ucast cluster :: u64" "0x7C00"] by (simp add: up)
qed

lemma copy_size_whole_cluster:
  fixes cluster :: u32
  shows "copy_size 0x7C00 (ucast cluster * 0x7C00) = 0x7C00"
    and "data_offset_in_block (ucast cluster * 0x7C00) = 0"
    and "block_offset_on_disc p (ucast cluster * 0x7C00) =
         p + PARTITION_DATA_OFFSET + ucast cluster * 0x8000"
proof -
  show "copy_size 0x7C00 (ucast cluster * 0x7C00) = 0x7C00"
    by (simp add: word_unat_eq_iff unat_copy_size unat_cluster_offset)
  show "data_offset_in_block (ucast cluster * 0x7C00) = 0"
    by (simp add: word_unat_eq_iff unat_data_offset_in_block unat_cluster_offset)
  have "unat ((ucast cluster * 0x7C00 :: u64) div BLOCK_DATA_SIZE) = unat (ucast cluster :: u64)"
    by (simp add: BLOCK_DATA_SIZE_def unat_div_distrib unat_cluster_offset unat_ucast_32_64)
  then have "(ucast cluster * 0x7C00 :: u64) div BLOCK_DATA_SIZE = ucast cluster"
    by (simp add: word_unat_eq_iff)
  then show "block_offset_on_disc p (ucast cluster * 0x7C00) =
         p + PARTITION_DATA_OFFSET + ucast cluster * 0x8000"
    by (simp add: block_offset_on_disc_def BLOCK_TOTAL_SIZE_def)
qed

lemma read_spec_whole_cluster:
  fixes cluster :: u32
  shows "read_spec env ctx p (ucast cluster * 0x7C00) 0x7C00 =
     (case plain_cluster env ctx p (ucast cluster * 0x7C00) of
        None \<Rightarrow> (False, [])
      | Some plain \<Rightarrow> (True, take 0x7C00 plain))"
proof -
  have "unat (ucast cluster * 0x7C00 :: u64) mod 31744 = 0"
    by (simp add: unat_cluster_offset)
  then have "unat ((ucast cluster * 0x7C00 :: u64) mod 0x7C00) = 0"
    by (simp add: unat_mod_distrib)
  then show ?thesis
    by (simp add: read_spec_pos copy_size_whole_cluster read_spec_0 split: option.split)
qed

lemma marks_hole_meaningless: "marks_hole md = meaningless md"
  by (simp add: marks_hole_def meaningless_def slice_def)

lemma hash_agrees_matches: "hash_agrees env payload md h = hash_matches env payload md h"
  by (simp add: hash_agrees_def hash_matches_def slice_def)

lemma cache_fits_serves_check: "cache_fits env ctx p c \<Longrightarrow> cache_serves_check env ctx p ids c"
  by (simp add: cache_serves_check_def cache_fits_serves split: option.split)

lemma check_clusters_spec:
  assumes "m_partition_keys vol part = Some ctx" and "part \<noteq> PARTITION_NONE"
    and "cache_serves_check env ctx (offset part) ids c"
  shows "(case check_clusters env vol ctx part c ids of
            (ok, warnings, c') \<Rightarrow>
              (ok, warnings) =
                (case first_failure (cluster_verdict env ctx (offset part)) ids of
                   None \<Rightarrow> (True, [])
                 | Some w \<Rightarrow> (False, [w])) \<and>
              (c' = c \<or> cache_fits env ctx (offset part) c'))"
  using assms(3)
proof (induction ids arbitrary: c)
  case Nil
  then show ?case by simp
next
  case (Cons cluster ids)
  let ?p = "offset part"
  let ?verdict = "cluster_verdict env ctx ?p"
  show ?case
  proof (cases "blob_Read env (?p + 0x20000 + ucast cluster * 0x8000) 0x400")
    case None
    then have "?verdict cluster = Some (CouldNotReadMetadata cluster)"
      by (simp add: cluster_verdict_def metadata_plain_def)
    then show ?thesis
      using None by (simp add: PARTITION_DATA_OFFSET_def)
  next
    case (Some md_cipher)
    let ?md = "aes_crypt_cbc env ctx 0x400 (replicate 16 0) md_cipher"
    have md: "metadata_plain env ctx ?p cluster = Some ?md"
      by (simp add: metadata_plain_def Some)
    show ?thesis
    proof (cases "meaningless ?md")
      case True
      then have "cache_serves_check env ctx ?p ids c"
        using Cons.prems by (simp add: cache_serves_check_def md marks_hole_meaningless)
      moreover have "?verdict cluster = None"
        using True by (simp add: cluster_verdict_def md marks_hole_meaningless)
      ultimately show ?thesis
        using Some True Cons.IH [of c] by (simp add: PARTITION_DATA_OFFSET_def)
    next
      case False
      then have "cache_serves env ctx ?p (ucast cluster * 0x7C00) c"
        using Cons.prems by (simp add: cache_serves_check_def md marks_hole_meaningless)
      then have "0 < (0x7C00 :: u64) \<longrightarrow> cache_serves env ctx ?p (ucast cluster * 0x7C00) c"
        by simp
      note loop = Read_loop_spec_first [OF this]
      obtain ok data c1 where read:
        "Read env vol c (ucast cluster * 0x7C00) 0x7C00 part = (ok, data, c1)"
        by (cases "Read env vol c (ucast cluster * 0x7C00) 0x7C00 part") auto
      then have "Read_loop env ctx ?p (ucast cluster * 0x7C00) 0x7C00 c = (ok, data, c1)"
        using assms(1,2) by (simp add: Read_def)
      then have spec: "read_spec env ctx ?p (ucast cluster * 0x7C00) 0x7C00 = (ok, data)"
        and kept: "c1 = c \<or> cache_fits env ctx ?p c1"
        and fits: "ok \<longrightarrow> cache_fits env ctx ?p c1"
        using loop by simp_all
      show ?thesis
      proof (cases ok)
        case False
        then have "?verdict cluster = Some (CouldNotReadData cluster)"
          using \<open>\<not> meaningless ?md\<close> spec
          by (simp add: cluster_verdict_def md marks_hole_meaningless)
        then show ?thesis
          using Some \<open>\<not> meaningless ?md\<close> read False kept
          by (simp add: PARTITION_DATA_OFFSET_def)
      next
        case True
        then have fits1: "cache_fits env ctx ?p c1"
          using fits by simp
        have verdict: "?verdict cluster =
            (case find (\<lambda>hash. \<not> hash_matches env data ?md hash) [0..<31] of
               None \<Rightarrow> None
             | Some hash \<Rightarrow> Some (HashIsInvalid cluster hash))"
          using \<open>\<not> meaningless ?md\<close> spec True
          by (simp add: cluster_verdict_def md marks_hole_meaningless hash_agrees_matches)
        show ?thesis
        proof (cases "find (\<lambda>hash. \<not> hash_matches env data ?md hash) [0..<31]")
          case None
          have "(case check_clusters env vol ctx part c1 ids of
              (ok, warnings, c') \<Rightarrow>
                (ok, warnings) =
                  (case first_failure ?verdict ids of
                     None \<Rightarrow> (True, [])
                   | Some w \<Rightarrow> (False, [w])) \<and>
                (c' = c1 \<or> cache_fits env ctx ?p c'))"
            by (rule Cons.IH [OF cache_fits_serves_check [OF fits1]])
          then show ?thesis
            using Some \<open>\<not> meaningless ?md\<close> read True None fits1
            by (auto simp: verdict PARTITION_DATA_OFFSET_def split: prod.splits)
        next
          case (Some hash)
          then show ?thesis
            using \<open>blob_Read env (?p + 0x20000 + ucast cluster * 0x8000) 0x400 = Some md_cipher\<close>
              \<open>\<not> meaningless ?md\<close> read True fits1
            by (simp add: verdict PARTITION_DATA_OFFSET_def)
        qed
      qed
    qed
  qed
qed

lemma unat_nClusters_of:
  fixes x :: u32
  shows "unat (ucast ((ucast x * 4 :: u64) div 0x8000) :: u32) = unat x * 4 div 0x8000"
proof -
  have small: "unat x < 2 ^ 32"
    using unsigned_less [of x] by simp
  then have "unat (ucast x :: u64) * unat (4 :: u64) < 2 ^ 64"
    by (simp add: unat_ucast_32_64)
  then have "unat (ucast x * 4 :: u64) = unat x * 4"
    using unat_mult_lem [of "ucast x :: u64" 4] by (simp add: unat_ucast_32_64)
  then have d: "unat ((ucast x * 4 :: u64) div 0x8000) = unat x * 4 div 0x8000"
    by (simp add: unat_div_distrib)
  have "unat x * 4 div 0x8000 < 2 ^ 32"
    using small by simp
  then show ?thesis
    by (simp add: unsigned_ucast_eq d take_bit_nat_eq_self)
qed

lemma unat_nClusters:
  "unat (nClusters env part) =
     (case blob_Read env (offset part + 0x2BC) 4 of
        Some size_bytes \<Rightarrow> unat (from_be size_bytes :: u32) * 4 div 0x8000
      | None \<Rightarrow> unat (from_be (stack_u32 env) :: u32) * 4 div 0x8000)"
  by (simp add: nClusters_def Let_def unat_nClusters_of split: option.split)

subsection \<open>The integrity check on the disc image, evaluated\<close>

lemma zero_hashes_match:
  "hash < 31 \<Longrightarrow> hash_matches (disc_env r v e) (replicate 0x7C00 0) (replicate 0x400 0) hash"
  by (simp add: hash_matches_def disc_env_sel min_def)

lemma good_disc_nClusters: "nClusters good_disc (Partition 0x50000) = 1"
  by (simp add: nClusters_def good_disc_def disc_env_sel disc_Read_def from_be_4)

lemma good_disc_nClusters_second: "nClusters good_disc (Partition 0x58000) = 1"
  by (simp add: nClusters_def good_disc_def disc_env_sel disc_Read_def from_be_4)

lemma good_disc_read_cluster_0:
  "Read good_disc (construct good_disc) (initial_cache junk) 0 0x7C00 (Partition 0x50000) =
     (True, replicate 0x7C00 0,
      \<lparr>m_last_decrypted_block = 0x70000, m_last_decrypted_block_data = replicate 0x7C00 0\<rparr>)"
  unfolding good_disc_def
  by (simp add: Read_def good_disc_key [unfolded good_disc_def] Read_loop_pos Read_loop_0
      geometry_defs disc_fetch_miss initial_cache_def UINT64_MAX_def)

text \<open>
  The check of the first partition, whose metadata are all zero and whose key leaves
  every byte as it is, is decided by the hashes of what the read of its one cluster
  returns.
\<close>

lemma good_disc_check_first_partition:
  assumes "Read good_disc (construct good_disc) c 0 0x7C00 (Partition 0x50000) = (True, data, c')"
  shows "CheckIntegrity good_disc (construct good_disc) c (Partition 0x50000) =
     (case find (\<lambda>hash. \<not> hash_matches good_disc data (replicate 0x400 0) hash) [0..<31] of
        Some hash \<Rightarrow> (False, [HashIsInvalid 0 hash], c')
      | None \<Rightarrow> (True, [], c'))"
proof -
  have md: "blob_Read good_disc 0x70000 0x400 = Some (replicate 0x400 0)"
    by (simp add: good_disc_def disc_env_sel disc_Read_def)
  have plain: "aes_crypt_cbc good_disc (replicate 16 0) 0x400 (replicate 16 0) (replicate 0x400 0) =
      replicate 0x400 0"
    by (simp add: good_disc_def disc_env_sel)
  have hole: "\<not> meaningless (replicate 0x400 0 :: u8 list)"
    by (simp add: meaningless_def list_ex_iff)
  show ?thesis
    using assms
    by (simp add: CheckIntegrity_def good_disc_key good_disc_nClusters PARTITION_DATA_OFFSET_def
        md plain hole split: option.split)
qed

lemma good_disc_CheckIntegrity:
  "CheckIntegrity good_disc (construct good_disc) (initial_cache junk) (Partition 0x50000) =
     (True, [],
      \<lparr>m_last_decrypted_block = 0x70000, m_last_decrypted_block_data = replicate 0x7C00 0\<rparr>)"
proof -
  have "find (\<lambda>hash. \<not> hash_matches good_disc (replicate 0x7C00 0) (replicate 0x400 0) hash)
      [0..<31] = None"
    by (simp add: find_None_iff good_disc_def zero_hashes_match)
  then show ?thesis
    by (simp add: good_disc_check_first_partition [OF good_disc_read_cluster_0])
qed

text \<open>
  The same check from the cache that a read of the second partition left, which holds
  the second cluster of the first partition under the other key: the first cluster is
  fetched and the check passes.
\<close>

lemma good_disc_read_cluster_0_other_cache:
  "Read good_disc (construct good_disc)
     \<lparr>m_last_decrypted_block = 0x78000, m_last_decrypted_block_data = replicate 0x7C00 2\<rparr>
     0 0x7C00 (Partition 0x50000) =
     (True, replicate 0x7C00 0,
      \<lparr>m_last_decrypted_block = 0x70000, m_last_decrypted_block_data = replicate 0x7C00 0\<rparr>)"
  unfolding good_disc_def
  by (simp add: Read_def good_disc_key [unfolded good_disc_def] Read_loop_pos Read_loop_0
      geometry_defs disc_fetch_miss)

lemma good_disc_CheckIntegrity_other_cache:
  "CheckIntegrity good_disc (construct good_disc)
     \<lparr>m_last_decrypted_block = 0x78000, m_last_decrypted_block_data = replicate 0x7C00 2\<rparr>
     (Partition 0x50000) =
     (True, [],
      \<lparr>m_last_decrypted_block = 0x70000, m_last_decrypted_block_data = replicate 0x7C00 0\<rparr>)"
proof -
  have "find (\<lambda>hash. \<not> hash_matches good_disc (replicate 0x7C00 0) (replicate 0x400 0) hash)
      [0..<31] = None"
    by (simp add: find_None_iff good_disc_def zero_hashes_match)
  then show ?thesis
    by (simp add: good_disc_check_first_partition [OF good_disc_read_cluster_0_other_cache])
qed

text \<open>
  A read of the second partition at the offset whose cluster number, times 0x8000, wraps
  to \<open>- 0x8000\<close> loads the block at 0x70000, the first cluster of the first partition,
  under the second partition's key. The check of the first partition then takes the
  payload from the cache and reports the first hash.
\<close>

lemma good_disc_read_wrapped:
  "Read good_disc (construct good_disc) (initial_cache junk) 0xF7FFFFFFFFFF8400 1
     (Partition 0x58000) =
     (True, replicate 1 2,
      \<lparr>m_last_decrypted_block = 0x70000, m_last_decrypted_block_data = replicate 0x7C00 2\<rparr>)"
  unfolding good_disc_def
  by (simp add: Read_def good_disc_key [unfolded good_disc_def] Read_loop_pos Read_loop_0
      geometry_defs disc_fetch_miss initial_cache_def UINT64_MAX_def)

lemma good_disc_read_cluster_0_stale:
  "Read good_disc (construct good_disc)
     \<lparr>m_last_decrypted_block = 0x70000, m_last_decrypted_block_data = replicate 0x7C00 2\<rparr>
     0 0x7C00 (Partition 0x50000) =
     (True, replicate 0x7C00 2,
      \<lparr>m_last_decrypted_block = 0x70000, m_last_decrypted_block_data = replicate 0x7C00 2\<rparr>)"
  unfolding good_disc_def
  by (simp add: Read_def good_disc_key [unfolded good_disc_def] Read_loop_pos Read_loop_0
      geometry_defs disc_fetch_hit)

lemma good_disc_CheckIntegrity_stale:
  "CheckIntegrity good_disc (construct good_disc)
     \<lparr>m_last_decrypted_block = 0x70000, m_last_decrypted_block_data = replicate 0x7C00 2\<rparr>
     (Partition 0x50000) =
     (False, [HashIsInvalid 0 0],
      \<lparr>m_last_decrypted_block = 0x70000, m_last_decrypted_block_data = replicate 0x7C00 2\<rparr>)"
proof -
  have "\<not> hash_matches good_disc (replicate 0x7C00 2) (replicate 0x400 0) 0"
    by (simp add: hash_matches_def good_disc_def disc_env_sel)
  then have "find (\<lambda>hash. \<not> hash_matches good_disc (replicate 0x7C00 2) (replicate 0x400 0) hash)
      [0..<31] = Some 0"
    by (simp add: upt_conv_Cons)
  then show ?thesis
    by (simp add: good_disc_check_first_partition [OF good_disc_read_cluster_0_stale])
qed

text \<open>The one cluster of the first partition, as the specification words the check.\<close>

lemma good_disc_cluster_verdict:
  "cluster_verdict good_disc (replicate 16 0) 0x50000 0 = None"
proof -
  have md: "metadata_plain good_disc (replicate 16 0) 0x50000 0 = Some (replicate 0x400 0)"
    by (simp add: metadata_plain_def good_disc_def disc_env_sel disc_Read_def)
  have hole: "\<not> marks_hole (replicate 0x400 0 :: u8 list)"
    by (simp add: marks_hole_def slice_def list_ex_iff)
  have payload: "read_spec good_disc (replicate 16 0) 0x50000 0 0x7C00 =
      (True, replicate 0x7C00 0)"
    unfolding good_disc_def
    by (simp add: read_spec_pos read_spec_0 plain_cluster_def disc_env_sel disc_Read_def
        geometry_defs)
  have "\<And>hash. hash < 31 \<Longrightarrow>
      hash_agrees good_disc (replicate 0x7C00 0) (replicate 0x400 0) hash"
    by (simp add: hash_agrees_def slice_def good_disc_def disc_env_sel min_def)
  then have "find (\<lambda>hash. \<not> hash_agrees good_disc (replicate 0x7C00 0) (replicate 0x400 0) hash)
      [0..<31] = None"
    by (simp add: find_None_iff)
  then show ?thesis
    using md hole payload by (simp add: cluster_verdict_def)
qed

text \<open>
  The one cluster of the second partition: its metadata, decrypted with the key that adds
  2 to every byte, mark a hole, and the check passes without a read of the payload.
\<close>

lemma good_disc_second_partition_hole:
  "metadata_plain good_disc (replicate 16 2) 0x58000 0 = Some (replicate 0x400 2)"
  "marks_hole (replicate 0x400 2 :: u8 list)"
  by (simp_all add: metadata_plain_def good_disc_def disc_env_sel disc_Read_def
      marks_hole_def slice_def list_ex_iff)

lemma good_disc_CheckIntegrity_second:
  "CheckIntegrity good_disc (construct good_disc) c (Partition 0x58000) = (True, [], c)"
proof -
  have md: "blob_Read good_disc 0x78000 0x400 = Some (replicate 0x400 0)"
    by (simp add: good_disc_def disc_env_sel disc_Read_def)
  have plain: "aes_crypt_cbc good_disc (replicate 16 2) 0x400 (replicate 16 0) (replicate 0x400 0) =
      replicate 0x400 2"
    by (simp add: good_disc_def disc_env_sel)
  have hole: "meaningless (replicate 0x400 2 :: u8 list)"
    by (simp add: meaningless_def list_ex_iff)
  show ?thesis
    by (simp add: CheckIntegrity_def good_disc_key good_disc_nClusters_second
        PARTITION_DATA_OFFSET_def md plain hole)
qed

section \<open>What a call loads into the cache\<close>

lemma asked_further:
  fixes o' off cs len :: u64
  assumes "cs \<le> len" and "o' - (off + cs) < len - cs"
  shows "o' - off < len"
proof -
  let ?d = "o' - off"
  have e: "o' - (off + cs) = ?d - cs"
    by simp
  have "unat (?d - cs) < unat len - unat cs"
    using assms by (simp add: e word_less_nat_alt unat_sub)
  then have sum: "unat (?d - cs) + unat cs < unat len"
    by linarith
  moreover have "unat len < 2 ^ 64"
    using unsigned_less [of len, where 'a = nat] by simp
  ultimately have "unat (?d - cs) + unat cs < 2 ^ LENGTH(64)"
    by simp
  then have "unat ((?d - cs) + cs) = unat (?d - cs) + unat cs"
    using unat_add_lem [of "?d - cs" cs] by blast
  then have "unat ?d < unat len"
    using sum by simp
  then show ?thesis
    by (simp add: word_less_nat_alt)
qed

lemma cluster_of_asked:
  fixes off :: u64 and k :: u32
  assumes "off - ucast k * 0x7C00 < 0x7C00"
  shows "unat off div 0x7C00 = unat k"
proof -
  let ?a = "ucast k * 0x7C00 :: u64"
  have a: "unat ?a = unat k * 31744"
    by (rule unat_cluster_offset)
  have r: "unat (off - ?a) < 31744"
    using assms by (simp add: word_less_nat_alt)
  have "unat k < 2 ^ 32"
    using unsigned_less [of k, where 'a = nat] by simp
  then have "unat (off - ?a) + unat ?a < 2 ^ LENGTH(64)"
    using r a by simp
  then have "unat ((off - ?a) + ?a) = unat (off - ?a) + unat ?a"
    using unat_add_lem [of "off - ?a" ?a] by blast
  then have "unat off = unat (off - ?a) + unat k * 31744"
    by (simp add: a)
  then show ?thesis
    using r by simp
qed

lemma fetch_block_loads:
  assumes "fetch_block env ctx c (block_offset_on_disc p off) = Some c1"
  shows "c1 = c \<or>
     (m_last_decrypted_block c1 = p + 0x20000 + off div 0x7C00 * 0x8000 \<and>
      holds_decryption env ctx c1)"
  using assms
  by (auto simp: fetch_block_def holds_decryption_def decrypt_block_def geometry_defs
      BLOCK_HEADER_SIZE_def split: if_splits option.splits)

lemma Read_loop_loads:
  assumes "Read_loop env ctx p off len c = (ok, bytes, c')"
  shows "c' = c \<or>
     (\<exists>off'. off' - off < len \<and>
        m_last_decrypted_block c' = p + 0x20000 + off' div 0x7C00 * 0x8000 \<and>
        holds_decryption env ctx c')"
  using assms
proof (induction env ctx p off len c arbitrary: ok bytes c' rule: Read_loop.induct)
  case (1 env ctx p off len c)
  show ?case
  proof (cases "0 < len")
    case False
    then have "len = 0"
      by (simp add: word_greater_zero_iff)
    then show ?thesis
      using "1.prems" by (simp add: Read_loop_0)
  next
    case True
    let ?cs = "copy_size len off"
    show ?thesis
    proof (cases "fetch_block env ctx c (block_offset_on_disc p off)")
      case None
      then show ?thesis
        using "1.prems" by (simp add: Read_loop_pos [OF True])
    next
      case (Some c1)
      obtain ok2 rest c2 where rest:
        "Read_loop env ctx p (off + ?cs) (len - ?cs) c1 = (ok2, rest, c2)"
        by (cases "Read_loop env ctx p (off + ?cs) (len - ?cs) c1") auto
      have c2: "c2 = c'"
        using "1.prems" by (simp add: Read_loop_pos [OF True] Some rest)
      note first = fetch_block_loads [OF Some]
      note later = "1.IH" [OF True Some rest]
      show ?thesis
      proof (cases "c2 = c1")
        case True
        show ?thesis
        proof (cases "c1 = c")
          case True
          then show ?thesis
            using \<open>c2 = c1\<close> c2 by simp
        next
          case False
          then have "off - off < len \<and>
              m_last_decrypted_block c' = p + 0x20000 + off div 0x7C00 * 0x8000 \<and>
              holds_decryption env ctx c'"
            using first \<open>c2 = c1\<close> c2 \<open>0 < len\<close> by auto
          then show ?thesis
            by blast
        qed
      next
        case False
        then obtain off' where off': "off' - (off + ?cs) < len - ?cs"
          and loaded: "m_last_decrypted_block c2 = p + 0x20000 + off' div 0x7C00 * 0x8000"
            "holds_decryption env ctx c2"
          using later by blast
        have "off' - off < len"
          using copy_size_le off' by (rule asked_further)
        then show ?thesis
          using loaded c2 by blast
      qed
    qed
  qed
qed

lemma Read_loads:
  assumes "Read env vol c off len part = (ok, bytes, c')"
  shows "c' = c \<or>
     (\<exists>ctx off'. part \<noteq> PARTITION_NONE \<and> m_partition_keys vol part = Some ctx \<and>
        off' - off < len \<and>
        m_last_decrypted_block c' = offset part + 0x20000 + off' div 0x7C00 * 0x8000 \<and>
        holds_decryption env ctx c')"
proof (cases "part = PARTITION_NONE")
  case True
  then show ?thesis
    using assms by (auto simp: Read_def split: option.splits)
next
  case False
  show ?thesis
  proof (cases "m_partition_keys vol part")
    case None
    then show ?thesis
      using assms False by (simp add: Read_def)
  next
    case (Some ctx)
    then have "Read_loop env ctx (offset part) off len c = (ok, bytes, c')"
      using assms False by (simp add: Read_def)
    from Read_loop_loads [OF this] show ?thesis
      using False Some by blast
  qed
qed

lemma check_clusters_loads:
  assumes "check_clusters env vol ctx part c ids = (ok, warnings, c')"
  shows "c' = c \<or>
     (\<exists>k \<in> set ids. \<exists>ctx' off'.
        part \<noteq> PARTITION_NONE \<and> m_partition_keys vol part = Some ctx' \<and>
        off' - ucast k * 0x7C00 < 0x7C00 \<and>
        m_last_decrypted_block c' = offset part + 0x20000 + off' div 0x7C00 * 0x8000 \<and>
        holds_decryption env ctx' c')"
proof -
  define loaded where "loaded = (\<lambda>(k :: u32) c'. \<exists>ctx' off'.
        part \<noteq> PARTITION_NONE \<and> m_partition_keys vol part = Some ctx' \<and>
        off' - ucast k * 0x7C00 < 0x7C00 \<and>
        m_last_decrypted_block c' = offset part + 0x20000 + off' div 0x7C00 * 0x8000 \<and>
        holds_decryption env ctx' c')"
  have "c' = c \<or> (\<exists>k \<in> set ids. loaded k c')"
    using assms
  proof (induction ids arbitrary: c ok warnings c')
    case Nil
    then show ?case by simp
  next
    case (Cons k ids)
    show ?case
    proof (cases "blob_Read env (offset part + PARTITION_DATA_OFFSET + ucast k * 0x8000) 0x400")
      case None
      then show ?thesis
        using Cons.prems by simp
    next
      case (Some md_cipher)
      let ?md = "aes_crypt_cbc env ctx 0x400 (replicate 16 0) md_cipher"
      show ?thesis
      proof (cases "meaningless ?md")
        case True
        then have "check_clusters env vol ctx part c ids = (ok, warnings, c')"
          using Cons.prems Some by simp
        from Cons.IH [OF this] show ?thesis
          by auto
      next
        case False
        obtain ok1 data c1 where read:
          "Read env vol c (ucast k * 0x7C00) 0x7C00 part = (ok1, data, c1)"
          by (cases "Read env vol c (ucast k * 0x7C00) 0x7C00 part") auto
        have first: "c1 = c \<or> loaded k c1"
          using Read_loads [OF read] unfolding loaded_def by blast
        have "c' = c1 \<or> (\<exists>ok' warnings'.
            check_clusters env vol ctx part c1 ids = (ok', warnings', c'))"
          using Cons.prems Some False read
          by (cases ok1) (auto split: option.splits)
        then have later: "c' = c1 \<or> (\<exists>k' \<in> set ids. loaded k' c')"
          using Cons.IH by blast
        show ?thesis
        proof (cases "c' = c1")
          case True
          then show ?thesis
            using first by auto
        next
          case False
          then show ?thesis
            using later by auto
        qed
      qed
    qed
  qed
  then show ?thesis
    unfolding loaded_def by blast
qed

lemma unat_of_nat_cluster:
  fixes n :: u32
  assumes "j < unat n"
  shows "unat (of_nat j :: u32) = j"
proof -
  have "unat n < 2 ^ 32"
    using unsigned_less [of n, where 'a = nat] by simp
  then have "j < 2 ^ 32"
    using assms by simp
  then show ?thesis
    by (simp add: unat_of_nat)
qed

lemma n_clusters_nClusters: "n_clusters env (offset part) = unat (nClusters env part)"
  by (simp add: n_clusters_def unat_nClusters)

lemma run_call_loads:
  "run_call env vol c cl = c \<or>
   (\<exists>part addr. loaded_for env vol cl part addr (run_call env vol c cl))"
proof (cases cl)
  case (ReadCall off len part)
  obtain ok bytes c' where read: "Read env vol c off len part = (ok, bytes, c')"
    by (cases "Read env vol c off len part") auto
  have c': "run_call env vol c cl = c'"
    by (simp add: ReadCall run_call_def read)
  show ?thesis
  proof (cases "c' = c")
    case True
    then show ?thesis
      using c' by simp
  next
    case False
    then obtain ctx off' where "part \<noteq> PARTITION_NONE" "m_partition_keys vol part = Some ctx"
      "off' - off < len"
      "m_last_decrypted_block c' = offset part + 0x20000 + off' div 0x7C00 * 0x8000"
      "holds_decryption env ctx c'"
      using Read_loads [OF read] by blast
    then have "loaded_for env vol cl part off' c'"
      by (simp add: loaded_for_def call_asks_def ReadCall)
    then show ?thesis
      using c' by auto
  qed
next
  case (CheckIntegrityCall part)
  show ?thesis
  proof (cases "m_partition_keys vol part")
    case None
    then show ?thesis
      by (simp add: CheckIntegrityCall run_call_def CheckIntegrity_def)
  next
    case (Some ctx)
    let ?ids = "map of_nat [0..<unat (nClusters env part)] :: u32 list"
    obtain ok warnings c' where run:
      "check_clusters env vol ctx part c ?ids = (ok, warnings, c')"
      by (cases "check_clusters env vol ctx part c ?ids") auto
    have c': "run_call env vol c cl = c'"
      by (simp add: CheckIntegrityCall run_call_def CheckIntegrity_def Some run)
    show ?thesis
    proof (cases "c' = c")
      case True
      then show ?thesis
        using c' by simp
    next
      case False
      then obtain k ctx' off' where k: "k \<in> set ?ids"
        and part: "part \<noteq> PARTITION_NONE" and key: "m_partition_keys vol part = Some ctx'"
        and asked: "off' - ucast k * 0x7C00 < 0x7C00"
        and loaded: "m_last_decrypted_block c' = offset part + 0x20000 + off' div 0x7C00 * 0x8000"
          "holds_decryption env ctx' c'"
        using check_clusters_loads [OF run] by blast
      obtain j where j: "j < unat (nClusters env part)" and kj: "k = of_nat j"
        using k by auto
      have "unat off' div 0x7C00 = j"
        using cluster_of_asked [OF asked] unat_of_nat_cluster [OF j] by (simp add: kj)
      then have "call_asks env cl part off'"
        using j by (simp add: call_asks_def CheckIntegrityCall n_clusters_nClusters)
      then have "loaded_for env vol cl part off' c'"
        using part key loaded by (simp add: loaded_for_def)
      then show ?thesis
        using c' by auto
    qed
  qed
qed

lemma run_calls_load:
  "foldl (run_call env vol) c calls = c \<or>
   (\<exists>cl \<in> set calls. \<exists>part addr.
      loaded_for env vol cl part addr (foldl (run_call env vol) c calls))"
proof (induction calls arbitrary: c)
  case Nil
  then show ?case by simp
next
  case (Cons cl calls)
  let ?c1 = "run_call env vol c cl"
  let ?c' = "foldl (run_call env vol) ?c1 calls"
  have later: "?c' = ?c1 \<or> (\<exists>cl' \<in> set calls. \<exists>part addr. loaded_for env vol cl' part addr ?c')"
    by (rule Cons.IH)
  have first: "?c1 = c \<or> (\<exists>part addr. loaded_for env vol cl part addr ?c1)"
    by (rule run_call_loads)
  show ?case
  proof (cases "?c' = ?c1")
    case True
    then show ?thesis
      using first by auto
  next
    case False
    then show ?thesis
      using later by auto
  qed
qed

subsection \<open>The cache on the disc image, evaluated\<close>

lemma good_disc_read_second_after_first:
  "Read good_disc (construct good_disc)
     \<lparr>m_last_decrypted_block = 0x70000, m_last_decrypted_block_data = replicate 0x7C00 0\<rparr>
     0 4 (Partition 0x58000) =
     (True, replicate 4 2,
      \<lparr>m_last_decrypted_block = 0x78000, m_last_decrypted_block_data = replicate 0x7C00 2\<rparr>)"
  unfolding good_disc_def
  by (simp add: Read_def good_disc_key [unfolded good_disc_def] Read_loop_pos Read_loop_0
      geometry_defs disc_fetch_miss)

lemma good_disc_holds_decryption:
  "holds_decryption good_disc ctx
     \<lparr>m_last_decrypted_block = 0x78000, m_last_decrypted_block_data = replicate 0x7C00 b\<rparr> \<longleftrightarrow>
   b = hd ctx"
  unfolding good_disc_def
  by (simp add: holds_decryption_def disc_env_sel disc_Read_def)

lemma good_disc_partition_contains:
  "partition_contains good_disc (Partition 0x58000) 0x78000"
  "\<not> partition_contains good_disc (Partition 0x50000) 0x78000"
  by (simp_all add: partition_contains_def good_disc_def disc_env_sel disc_Read_def from_be_4)

section \<open>What a read returns\<close>

text \<open>
  Claim C1, as amended. For a partition \<open>p\<close> of the partition map and a request
  \<open>(offset, length)\<close>, suppose that the cache serves the first cluster of the request: if
  \<open>last_cluster_offset\<close> is \<open>p.offset + 0x20000 + (offset / 0x7C00) * 0x8000\<close>, the cache
  buffer is that cluster decrypted with the key of \<open>p\<close> (nothing is asked of an empty
  request, nor of a cache with another offset). Then \<open>Read\<close> returns what the read without
  a cache returns: cluster by cluster, the 0x8000 bytes at
  \<open>p.offset + 0x20000 + (offset / 0x7C00) * 0x8000\<close> from the blob reader, the 0x7C00
  bytes from 0x400 on decrypted with the key of \<open>p\<close> and the initialisation vector at
  0x3D0, copied from \<open>offset mod 0x7C00\<close> on; false as soon as a fetch fails, true
  otherwise. The read leaves the cache as it was or serving every request of \<open>p\<close>, and
  serving every request of \<open>p\<close> when it succeeds and is not empty. A request that lies within
  the cluster at \<open>last_cluster_offset\<close> returns true and the bytes of the cache buffer from
  \<open>offset mod 0x7C00\<close> on, whatever the blob reader and the cipher are, and leaves the cache as
  it was. The cache of a freshly constructed volume serves every request of every partition
  of its map. For \<open>PARTITION_NONE\<close> the read is the blob reader's read and its result.
\<close>

theorem read_decrypts_cluster_by_cluster:
  assumes "m_partition_keys vol part = Some ctx"
    and "part \<noteq> PARTITION_NONE"
  shows "((0 < len \<longrightarrow> cache_serves env ctx (offset part) off c) \<longrightarrow>
        (case Read env vol c off len part of
           (ok, bytes, c') \<Rightarrow>
             (ok, bytes) = read_spec env ctx (offset part) off len \<and>
             (c' = c \<or> cache_fits env ctx (offset part) c') \<and>
             (ok \<and> 0 < len \<longrightarrow> cache_fits env ctx (offset part) c'))) \<and>
     (m_last_decrypted_block c = offset part + 0x20000 + off div 0x7C00 * 0x8000 \<and>
      0 < len \<and> len \<le> 0x7C00 - off mod 0x7C00 \<longrightarrow>
        Read env vol c off len part =
          (True, take (unat len) (drop (unat (off mod 0x7C00)) (m_last_decrypted_block_data c)),
           c)) \<and>
     Read env vol c off len PARTITION_NONE =
       (case blob_Read env off len of
          None \<Rightarrow> (False, [], c)
        | Some bytes \<Rightarrow> (True, bytes, c)) \<and>
     (m_partition_keys (construct env) part = Some ctx \<longrightarrow>
        cache_fits env ctx (offset part) (initial_cache junk))"
proof (intro conjI impI)
  assume "0 < len \<longrightarrow> cache_serves env ctx (offset part) off c"
  from Read_loop_spec_first [OF this]
  show "case Read env vol c off len part of
           (ok, bytes, c') \<Rightarrow>
             (ok, bytes) = read_spec env ctx (offset part) off len \<and>
             (c' = c \<or> cache_fits env ctx (offset part) c') \<and>
             (ok \<and> 0 < len \<longrightarrow> cache_fits env ctx (offset part) c')"
    using assms by (simp add: Read_def)
next
  assume hit: "m_last_decrypted_block c = offset part + 0x20000 + off div 0x7C00 * 0x8000 \<and>
      0 < len \<and> len \<le> 0x7C00 - off mod 0x7C00"
  then have "Read_loop env ctx (offset part) off len c =
      (True, take (unat len)
         (drop (unat (data_offset_in_block off)) (m_last_decrypted_block_data c)), c)"
    by (intro Read_loop_hit) (simp_all add: geometry_defs)
  then show "Read env vol c off len part =
          (True, take (unat len) (drop (unat (off mod 0x7C00)) (m_last_decrypted_block_data c)),
           c)"
    using assms by (simp add: Read_def data_offset_in_block_def BLOCK_DATA_SIZE_def)
next
  show "Read env vol c off len PARTITION_NONE =
       (case blob_Read env off len of
          None \<Rightarrow> (False, [], c)
        | Some bytes \<Rightarrow> (True, bytes, c))"
    by (simp add: Read_def)
next
  assume "m_partition_keys (construct env) part = Some ctx"
  then have "even (offset part)"
    using construct_keys_even by blast
  then show "cache_fits env ctx (offset part) (initial_cache junk)"
    by (rule initial_cache_fits)
qed

text \<open>
  On the image that is readable everywhere, with the cache that a read of the first
  partition left (its first cluster, at 0x70000), four bytes across the first cluster
  boundary of the second partition, whose key adds 2 to every byte: two bytes of the
  cluster at 0x78000 and two of the cluster at 0x80000. Then four bytes within the cluster
  that the cache holds. The cache of the fresh volume serves every request of the second
  partition.
\<close>

theorem read_decrypts_cluster_by_cluster_witness:
  "m_partition_keys (construct endless_disc) (Partition 0x58000) = Some (replicate 16 2) \<and>
   Partition 0x58000 \<noteq> PARTITION_NONE \<and>
   cache_serves endless_disc (replicate 16 2) (offset (Partition 0x58000)) 0x7BFE
     \<lparr>m_last_decrypted_block = 0x70000, m_last_decrypted_block_data = replicate 0x7C00 0\<rparr> \<and>
   Read endless_disc (construct endless_disc)
     \<lparr>m_last_decrypted_block = 0x70000, m_last_decrypted_block_data = replicate 0x7C00 0\<rparr>
     0x7BFE 4 (Partition 0x58000) =
     (True, replicate 2 2 @ replicate 2 3,
      \<lparr>m_last_decrypted_block = 0x80000, m_last_decrypted_block_data = replicate 0x7C00 3\<rparr>) \<and>
   read_spec endless_disc (replicate 16 2) (offset (Partition 0x58000)) 0x7BFE 4 =
     (True, replicate 2 2 @ replicate 2 3) \<and>
   cache_fits endless_disc (replicate 16 2) (offset (Partition 0x58000))
     \<lparr>m_last_decrypted_block = 0x80000, m_last_decrypted_block_data = replicate 0x7C00 3\<rparr> \<and>
   Read endless_disc (construct endless_disc)
     \<lparr>m_last_decrypted_block = 0x80000, m_last_decrypted_block_data = replicate 0x7C00 3\<rparr>
     0x7C10 4 (Partition 0x58000) =
     (True, replicate 4 3,
      \<lparr>m_last_decrypted_block = 0x80000, m_last_decrypted_block_data = replicate 0x7C00 3\<rparr>) \<and>
   cache_fits endless_disc (replicate 16 2) (offset (Partition 0x58000)) (initial_cache [])"
proof -
  let ?c = "\<lparr>m_last_decrypted_block = 0x70000,
             m_last_decrypted_block_data = replicate 0x7C00 (0 :: u8)\<rparr>"
  let ?c' = "\<lparr>m_last_decrypted_block = 0x80000,
              m_last_decrypted_block_data = replicate 0x7C00 (3 :: u8)\<rparr>"
  have part: "Partition 0x58000 \<noteq> PARTITION_NONE"
    by simp
  have serves: "cache_serves endless_disc (replicate 16 2) (offset (Partition 0x58000)) 0x7BFE ?c"
    by (simp add: cache_serves_def)
  have across: "(True, replicate 2 2 @ replicate 2 3) =
      read_spec endless_disc (replicate 16 2) (offset (Partition 0x58000)) 0x7BFE 4 \<and>
      cache_fits endless_disc (replicate 16 2) (offset (Partition 0x58000)) ?c'"
    using read_decrypts_cluster_by_cluster
        [OF endless_disc_key_second part, where off = "0x7BFE" and len = 4 and c = ?c
          and env = endless_disc]
      serves endless_disc_read_second_partition
    by simp
  have within: "Read endless_disc (construct endless_disc) ?c' 0x7C10 4 (Partition 0x58000) =
      (True, replicate 4 3, ?c')"
    using read_decrypts_cluster_by_cluster
        [OF endless_disc_key_second part, where off = "0x7C10" and len = 4 and c = ?c']
    by simp
  have fresh: "cache_fits endless_disc (replicate 16 2) (offset (Partition 0x58000))
      (initial_cache [])"
    using read_decrypts_cluster_by_cluster
        [OF endless_disc_key_second part, where env = endless_disc and junk = "[]"]
      endless_disc_key_second
    by blast
  show ?thesis
    using part serves across within fresh endless_disc_key_second
      endless_disc_read_second_partition
    by simp
qed

text \<open>
  Claim C1 as stated fails on a cache hit for a cluster that another partition decrypted.
  On the image whose partitions at 0x50000 and 0x58000 have different keys, the second
  cluster of the first and the first cluster of the second are the same block at 0x78000.
  After one byte of it is read for the first partition, the cache does not serve the
  second partition at offset 0: the read there returns the byte of the cache, 0, while the
  decryption of that cluster with the second partition's key begins with 2.
\<close>

theorem read_stale_cache_counterexample:
  "m_partition_keys (construct good_disc) (Partition 0x58000) = Some (replicate 16 2) \<and>
   Read good_disc (construct good_disc) (initial_cache []) 0x7C00 1 (Partition 0x50000) =
     (True, replicate 1 0,
      \<lparr>m_last_decrypted_block = 0x78000, m_last_decrypted_block_data = replicate 0x7C00 0\<rparr>) \<and>
   \<not> cache_serves good_disc (replicate 16 2) (offset (Partition 0x58000)) 0
       \<lparr>m_last_decrypted_block = 0x78000, m_last_decrypted_block_data = replicate 0x7C00 0\<rparr> \<and>
   Read good_disc (construct good_disc)
     \<lparr>m_last_decrypted_block = 0x78000, m_last_decrypted_block_data = replicate 0x7C00 0\<rparr>
     0 1 (Partition 0x58000) =
     (True, replicate 1 0,
      \<lparr>m_last_decrypted_block = 0x78000, m_last_decrypted_block_data = replicate 0x7C00 0\<rparr>) \<and>
   read_spec good_disc (replicate 16 2) (offset (Partition 0x58000)) 0 1 = (True, replicate 1 2) \<and>
   replicate 1 (0 :: u8) \<noteq> replicate 1 2"
proof -
  have "replicate 1 (0 :: u8) \<noteq> replicate 1 2"
    by simp
  then show ?thesis
    using good_disc_key(2) good_disc_read_second_cluster [of "[]"] good_disc_read_stale
      good_disc_read_spec_other_key good_disc_stale_cache_does_not_serve
    by simp
qed

section \<open>What the integrity check decides\<close>

text \<open>
  Claim C2, as amended. For a partition \<open>p\<close> of the partition map, \<open>CheckIntegrity\<close> visits
  the clusters \<open>0\<close> up to \<open>n_clusters\<close> in order, where
  \<open>n_clusters = (u32_be(p.offset + 0x2BC) * 4) / 0x8000\<close> when these four bytes can be
  read, and the same quotient of the indeterminate content of the local variable when they
  cannot (the result of that read is not looked at). Suppose that the cache serves the
  first read of a payload: if \<open>last_cluster_offset\<close> is the disc offset of the first cluster
  whose metadata do not mark a hole (no metadata up to it being unreadable), the cache
  buffer is that cluster decrypted with the key of \<open>p\<close>. Then the result is decided by the
  first cluster found wrong: the check returns false with the warning for that cluster
  (metadata not readable; or, the metadata decrypted with an all-zero initialisation
  vector having only zero bytes at 0x26C up to 0x280, payload not readable or the first of
  the 31 sub-blocks of 1024 bytes whose SHA-1 differs from its 20-byte slot), and it
  returns true, without a warning, exactly when no cluster is found wrong, that is, when
  every cluster has readable metadata and is skipped as a hole or has a readable payload
  whose 31 hashes all match. The check leaves the cache as it was or serving every request
  of \<open>p\<close>.
\<close>

theorem integrity_check_verdict:
  assumes "m_partition_keys vol part = Some ctx"
    and "part \<noteq> PARTITION_NONE"
    and "cache_serves_check env ctx (offset part)
           (map of_nat [0..<unat (nClusters env part)]) c"
  shows "unat (nClusters env part) =
       (case blob_Read env (offset part + 0x2BC) 4 of
          Some size_bytes \<Rightarrow> unat (from_be size_bytes :: u32) * 4 div 0x8000
        | None \<Rightarrow> unat (from_be (stack_u32 env) :: u32) * 4 div 0x8000) \<and>
     (case CheckIntegrity env vol c part of
        (ok, warnings, c') \<Rightarrow>
          (ok, warnings) =
            (case first_failure (cluster_verdict env ctx (offset part))
                    (map of_nat [0..<unat (nClusters env part)]) of
               None \<Rightarrow> (True, [])
             | Some w \<Rightarrow> (False, [w])) \<and>
          (c' = c \<or> cache_fits env ctx (offset part) c')) \<and>
     (fst (CheckIntegrity env vol c part) \<longleftrightarrow>
        (\<forall>cluster < unat (nClusters env part).
            cluster_verdict env ctx (offset part) (of_nat cluster) = None))"
proof -
  let ?ids = "map of_nat [0..<unat (nClusters env part)] :: u32 list"
  let ?verdict = "cluster_verdict env ctx (offset part)"
  obtain ok warnings c' where run:
    "check_clusters env vol ctx part c ?ids = (ok, warnings, c')"
    by (cases "check_clusters env vol ctx part c ?ids") auto
  have spec: "(ok, warnings) =
      (case first_failure ?verdict ?ids of None \<Rightarrow> (True, []) | Some w \<Rightarrow> (False, [w]))"
    and kept: "c' = c \<or> cache_fits env ctx (offset part) c'"
    using check_clusters_spec [OF assms] run by simp_all
  have check: "CheckIntegrity env vol c part = (ok, warnings, c')"
    using assms(1) run by (simp add: CheckIntegrity_def)
  have "ok \<longleftrightarrow> first_failure ?verdict ?ids = None"
    using spec by (simp split: option.splits)
  also have "\<dots> \<longleftrightarrow> (\<forall>cluster < unat (nClusters env part). ?verdict (of_nat cluster) = None)"
    by (auto simp: first_failure_None list_all_iff)
  finally have iff: "ok \<longleftrightarrow>
      (\<forall>cluster < unat (nClusters env part). ?verdict (of_nat cluster) = None)" .
  have n: "unat (nClusters env part) =
       (case blob_Read env (offset part + 0x2BC) 4 of
          Some size_bytes \<Rightarrow> unat (from_be size_bytes :: u32) * 4 div 0x8000
        | None \<Rightarrow> unat (from_be (stack_u32 env) :: u32) * 4 div 0x8000)"
    by (rule unat_nClusters)
  show ?thesis
    using n spec kept iff unfolding check by simp
qed

text \<open>
  On the image with two partitions: the check of the first one, from the cache that
  holds its second cluster under the other partition's key, fetches the first cluster and
  passes on its 31 hashes; the check of the second one, whose key adds 2 to every byte,
  finds its one cluster marked as a hole and passes without reading a payload, whatever
  the cache holds.
\<close>

theorem integrity_check_verdict_witness:
  "m_partition_keys (construct good_disc) (Partition 0x50000) = Some (replicate 16 0) \<and>
   Partition 0x50000 \<noteq> PARTITION_NONE \<and>
   cache_serves_check good_disc (replicate 16 0) (offset (Partition 0x50000))
     (map of_nat [0..<unat (nClusters good_disc (Partition 0x50000))])
     \<lparr>m_last_decrypted_block = 0x78000, m_last_decrypted_block_data = replicate 0x7C00 2\<rparr> \<and>
   first_payload_read good_disc (replicate 16 0) (offset (Partition 0x50000))
     (map of_nat [0..<unat (nClusters good_disc (Partition 0x50000))]) = Some 0 \<and>
   blob_Read good_disc (offset (Partition 0x50000) + 0x2BC) 4 = Some [0, 0, 0x20, 0] \<and>
   unat (nClusters good_disc (Partition 0x50000)) = 1 \<and>
   CheckIntegrity good_disc (construct good_disc)
     \<lparr>m_last_decrypted_block = 0x78000, m_last_decrypted_block_data = replicate 0x7C00 2\<rparr>
     (Partition 0x50000) =
     (True, [],
      \<lparr>m_last_decrypted_block = 0x70000, m_last_decrypted_block_data = replicate 0x7C00 0\<rparr>) \<and>
   cluster_verdict good_disc (replicate 16 0) (offset (Partition 0x50000)) (of_nat 0) = None \<and>
   m_partition_keys (construct good_disc) (Partition 0x58000) = Some (replicate 16 2) \<and>
   Partition 0x58000 \<noteq> PARTITION_NONE \<and>
   cache_serves_check good_disc (replicate 16 2) (offset (Partition 0x58000))
     (map of_nat [0..<unat (nClusters good_disc (Partition 0x58000))])
     \<lparr>m_last_decrypted_block = 0x78000, m_last_decrypted_block_data = replicate 0x7C00 0\<rparr> \<and>
   first_payload_read good_disc (replicate 16 2) (offset (Partition 0x58000))
     (map of_nat [0..<unat (nClusters good_disc (Partition 0x58000))]) = None \<and>
   CheckIntegrity good_disc (construct good_disc)
     \<lparr>m_last_decrypted_block = 0x78000, m_last_decrypted_block_data = replicate 0x7C00 0\<rparr>
     (Partition 0x58000) =
     (True, [],
      \<lparr>m_last_decrypted_block = 0x78000, m_last_decrypted_block_data = replicate 0x7C00 0\<rparr>) \<and>
   cluster_verdict good_disc (replicate 16 2) (offset (Partition 0x58000)) (of_nat 0) = None"
proof -
  let ?c = "\<lparr>m_last_decrypted_block = 0x78000,
             m_last_decrypted_block_data = replicate 0x7C00 (2 :: u8)\<rparr>"
  let ?d = "\<lparr>m_last_decrypted_block = 0x78000,
             m_last_decrypted_block_data = replicate 0x7C00 (0 :: u8)\<rparr>"
  have part: "Partition 0x50000 \<noteq> PARTITION_NONE" and part': "Partition 0x58000 \<noteq> PARTITION_NONE"
    by simp_all
  have size: "blob_Read good_disc (offset (Partition 0x50000) + 0x2BC) 4 = Some [0, 0, 0x20, 0]"
    by (simp add: good_disc_def disc_env_sel disc_Read_def)
  have n: "unat (nClusters good_disc (Partition 0x50000)) = 1"
    and n': "unat (nClusters good_disc (Partition 0x58000)) = 1"
    by (simp_all add: good_disc_nClusters good_disc_nClusters_second)
  have md: "metadata_plain good_disc (replicate 16 0) 0x50000 0 = Some (replicate 0x400 0)"
    by (simp add: metadata_plain_def good_disc_def disc_env_sel disc_Read_def)
  have no_hole: "\<not> marks_hole (replicate 0x400 0 :: u8 list)"
    by (simp add: marks_hole_def slice_def list_ex_iff)
  have first: "first_payload_read good_disc (replicate 16 0) (offset (Partition 0x50000))
      (map of_nat [0..<unat (nClusters good_disc (Partition 0x50000))]) = Some 0"
    by (simp add: n md no_hole)
  have first': "first_payload_read good_disc (replicate 16 2) (offset (Partition 0x58000))
      (map of_nat [0..<unat (nClusters good_disc (Partition 0x58000))]) = None"
    by (simp add: n' good_disc_second_partition_hole)
  have serves: "cache_serves_check good_disc (replicate 16 0) (offset (Partition 0x50000))
      (map of_nat [0..<unat (nClusters good_disc (Partition 0x50000))]) ?c"
    unfolding cache_serves_check_def first by (simp add: cache_serves_def)
  have serves': "cache_serves_check good_disc (replicate 16 2) (offset (Partition 0x58000))
      (map of_nat [0..<unat (nClusters good_disc (Partition 0x58000))]) ?d"
    unfolding cache_serves_check_def first' by simp
  note t = integrity_check_verdict [OF good_disc_key(1) part serves]
  note t' = integrity_check_verdict [OF good_disc_key(2) part' serves']
  have "fst (CheckIntegrity good_disc (construct good_disc) ?c (Partition 0x50000))"
    by (simp add: good_disc_CheckIntegrity_other_cache)
  then have "\<forall>cluster < unat (nClusters good_disc (Partition 0x50000)).
      cluster_verdict good_disc (replicate 16 0) (offset (Partition 0x50000)) (of_nat cluster) = None"
    using t by blast
  then have verdict:
    "cluster_verdict good_disc (replicate 16 0) (offset (Partition 0x50000)) (of_nat 0) = None"
    using n by (metis zero_less_one)
  have "fst (CheckIntegrity good_disc (construct good_disc) ?d (Partition 0x58000))"
    by (simp add: good_disc_CheckIntegrity_second)
  then have "\<forall>cluster < unat (nClusters good_disc (Partition 0x58000)).
      cluster_verdict good_disc (replicate 16 2) (offset (Partition 0x58000)) (of_nat cluster) = None"
    using t' by blast
  then have verdict':
    "cluster_verdict good_disc (replicate 16 2) (offset (Partition 0x58000)) (of_nat 0) = None"
    using n' by (metis zero_less_one)
  show ?thesis
    using part part' size n first first' serves serves' verdict verdict' good_disc_key
      good_disc_CheckIntegrity_other_cache good_disc_CheckIntegrity_second [of ?d]
    by simp
qed

text \<open>
  Claim C2 as stated fails when the cache holds a cluster of the partition that a read of
  another partition decrypted. On the image with two partitions, a read of one byte of
  the second partition at offset 0xF7FFFFFFFFFF8400, where the cluster number times 0x8000
  wraps, loads the block at 0x70000 under the second partition's key. That block is the one
  cluster of the first partition: its metadata are readable and do not mark a hole, its
  payload is readable and its 31 hashes match, so that nothing is wrong with it, and the
  check of the first partition from an empty cache returns true. From the cache that the
  read left, the check takes the payload from the cache, reports hash 0 of cluster 0 and
  returns false.
\<close>

theorem integrity_check_stale_cache_counterexample:
  "m_partition_keys (construct good_disc) (Partition 0x50000) = Some (replicate 16 0) \<and>
   m_partition_keys (construct good_disc) (Partition 0x58000) = Some (replicate 16 2) \<and>
   Read good_disc (construct good_disc) (initial_cache []) 0xF7FFFFFFFFFF8400 1
     (Partition 0x58000) =
     (True, replicate 1 2,
      \<lparr>m_last_decrypted_block = 0x70000, m_last_decrypted_block_data = replicate 0x7C00 2\<rparr>) \<and>
   nClusters good_disc (Partition 0x50000) = 1 \<and>
   cluster_verdict good_disc (replicate 16 0) (offset (Partition 0x50000)) 0 = None \<and>
   CheckIntegrity good_disc (construct good_disc) (initial_cache []) (Partition 0x50000) =
     (True, [],
      \<lparr>m_last_decrypted_block = 0x70000, m_last_decrypted_block_data = replicate 0x7C00 0\<rparr>) \<and>
   CheckIntegrity good_disc (construct good_disc)
     \<lparr>m_last_decrypted_block = 0x70000, m_last_decrypted_block_data = replicate 0x7C00 2\<rparr>
     (Partition 0x50000) =
     (False, [HashIsInvalid 0 0],
      \<lparr>m_last_decrypted_block = 0x70000, m_last_decrypted_block_data = replicate 0x7C00 2\<rparr>) \<and>
   \<not> cache_serves good_disc (replicate 16 0) (offset (Partition 0x50000)) 0
       \<lparr>m_last_decrypted_block = 0x70000, m_last_decrypted_block_data = replicate 0x7C00 2\<rparr>"
proof -
  have "\<not> cache_serves good_disc (replicate 16 0) (offset (Partition 0x50000)) 0
       \<lparr>m_last_decrypted_block = 0x70000, m_last_decrypted_block_data = replicate 0x7C00 2\<rparr>"
    unfolding good_disc_def
    by (simp add: cache_serves_def plain_cluster_def disc_env_sel disc_Read_def)
  then show ?thesis
    using good_disc_key good_disc_read_wrapped [of "[]"] good_disc_nClusters
      good_disc_cluster_verdict good_disc_CheckIntegrity [of "[]"] good_disc_CheckIntegrity_stale
    by simp
qed

section \<open>The game partition\<close>

text \<open>
  Claim C3, as amended. The partition returned by \<open>GetGamePartition\<close> is the partition of
  the first table entry, in group-major and then index-major scan order, that has type 0
  and passes every check of discovery, so that it is stored (NONE if there is no such
  entry, or if the image has no partition table). Once the game partition is set, no
  later entry changes it.
\<close>

theorem game_partition_first_loaded_type_0:
  "GetGamePartition (construct env) = first_loaded_type_0 env \<and>
   (m_game_partition vol \<noteq> PARTITION_NONE \<longrightarrow>
      m_game_partition (scan_entry env tbl vol i) = m_game_partition vol)"
proof
  show "GetGamePartition (construct env) = first_loaded_type_0 env"
  proof (cases "ReadSwapped_u32 env 0x60 = Some 0")
    case True
    then show ?thesis
      by (simp add: GetGamePartition_def first_loaded_type_0_def construct_entries scan_game
          initial_volume_def)
  next
    case False
    then show ?thesis
      by (simp add: GetGamePartition_def first_loaded_type_0_def construct_def
          initial_volume_def)
  qed
next
  show "m_game_partition vol \<noteq> PARTITION_NONE \<longrightarrow>
      m_game_partition (scan_entry env tbl vol i) = m_game_partition vol"
    using scan_step_game [of env vol "(tbl, i)"] by (simp add: scan_step_def)
qed

theorem game_partition_first_loaded_type_0_witness:
  "m_game_partition (scan_entry good_disc 0x40020 initial_volume 0) \<noteq> PARTITION_NONE \<and>
   m_game_partition
     (scan_entry good_disc 0x40020 (scan_entry good_disc 0x40020 initial_volume 0) 1) =
   m_game_partition (scan_entry good_disc 0x40020 initial_volume 0) \<and>
   entry_type_is_0 good_disc 0x40020 1 \<and>
   GetGamePartition (construct good_disc) = Partition 0x50000 \<and>
   first_loaded_type_0 good_disc = Partition 0x50000"
proof -
  have set: "m_game_partition (scan_entry good_disc 0x40020 initial_volume 0) \<noteq> PARTITION_NONE"
    by (simp add: good_disc_def scan_entry_outcome disc_entry_0 disc_entry_types
        initial_volume_def)
  have game: "GetGamePartition (construct good_disc) = Partition 0x50000"
    by (simp add: GetGamePartition_def good_disc_construct)
  have type: "entry_type_is_0 good_disc 0x40020 1"
    by (simp add: good_disc_def disc_entry_types)
  show ?thesis
    using set game type
      game_partition_first_loaded_type_0
        [of good_disc "scan_entry good_disc 0x40020 initial_volume 0" "0x40020" 1]
    by simp
qed

text \<open>
  Claim C3 as stated fails where the first entry of type 0 is skipped: on the image whose
  first ticket is not recognized, the first partition with type field 0 in scan order is
  the one at 0x50000, and the game partition is the one at 0x58000.
\<close>

theorem game_partition_counterexample:
  "spec_game_partition bad_ticket_disc = Partition 0x50000 \<and>
   GetGamePartition (construct bad_ticket_disc) = Partition 0x58000 \<and>
   GetGamePartition (construct bad_ticket_disc) \<noteq> spec_game_partition bad_ticket_disc"
proof -
  have spec: "spec_game_partition bad_ticket_disc = Partition 0x50000"
    by (simp add: spec_game_partition_def bad_ticket_disc_def disc_magic disc_table_entries
        disc_entry_types entry_pointer_def ReadSwapped_u32_def disc_env_sel disc_Read_def
        from_be_4)
  have game: "GetGamePartition (construct bad_ticket_disc) = Partition 0x58000"
    by (simp add: GetGamePartition_def bad_ticket_disc_construct)
  show ?thesis
    using spec game by simp
qed

section \<open>The cache invariant\<close>

text \<open>
  Claim C4, as amended. After construction the cached offset is the sentinel. Every call
  of \<open>Read\<close> or \<open>CheckIntegrity\<close>, with whatever arguments, leaves the cache as it was or as
  the call has loaded it: the cached offset is \<open>p.offset + 0x20000 + (o / 0x7C00) * 0x8000\<close>
  for a partition \<open>p\<close> of the map, the one the call is for, and a logical offset \<open>o\<close> that the
  call addresses, and the cache buffer holds the decryption of the 0x7C00-byte data region
  of the cluster that the blob reader yields at the cached offset, with the key of \<open>p\<close>. So
  after every sequence of calls from the fresh cache, if the cached offset is not
  \<open>UINT64_MAX\<close>, the cache is as one of the calls of the sequence has loaded it. The key is
  that of the partition for which the cluster was fetched, which need not be the partition
  whose data contain the cluster.
\<close>

theorem cache_invariant:
  "m_last_decrypted_block (initial_cache junk) = UINT64_MAX \<and>
   (run_call env vol c cl = c \<or>
    (\<exists>part addr. loaded_for env vol cl part addr (run_call env vol c cl))) \<and>
   (m_last_decrypted_block (foldl (run_call env vol) (initial_cache junk) calls) \<noteq> UINT64_MAX \<longrightarrow>
      (\<exists>cl \<in> set calls. \<exists>part addr.
          loaded_for env vol cl part addr
            (foldl (run_call env vol) (initial_cache junk) calls)))"
proof (intro conjI impI)
  show "m_last_decrypted_block (initial_cache junk) = UINT64_MAX"
    by (simp add: initial_cache_def)
next
  show "run_call env vol c cl = c \<or>
    (\<exists>part addr. loaded_for env vol cl part addr (run_call env vol c cl))"
    by (rule run_call_loads)
next
  let ?c' = "foldl (run_call env vol) (initial_cache junk) calls"
  assume "m_last_decrypted_block ?c' \<noteq> UINT64_MAX"
  then have "?c' \<noteq> initial_cache junk"
    by (auto simp: initial_cache_def)
  then show "\<exists>cl \<in> set calls. \<exists>part addr. loaded_for env vol cl part addr ?c'"
    using run_calls_load [of env vol "initial_cache junk" calls] by blast
qed

text \<open>
  On the image with two partitions: the check of the first partition, then a read of four
  bytes of the second, whose key adds 2 to every byte. The cache ends with the cluster at
  0x78000 as the read has loaded it, under the second partition's key and not under the
  first one's.
\<close>

theorem cache_invariant_witness:
  "foldl (run_call good_disc (construct good_disc)) (initial_cache [])
     [CheckIntegrityCall (Partition 0x50000), ReadCall 0 4 (Partition 0x58000)] =
     \<lparr>m_last_decrypted_block = 0x78000, m_last_decrypted_block_data = replicate 0x7C00 2\<rparr> \<and>
   m_last_decrypted_block
     \<lparr>m_last_decrypted_block = 0x78000, m_last_decrypted_block_data = replicate 0x7C00 (2 :: u8)\<rparr> \<noteq>
     UINT64_MAX \<and>
   (\<exists>cl \<in> set [CheckIntegrityCall (Partition 0x50000), ReadCall 0 4 (Partition 0x58000)].
      \<exists>part addr.
        loaded_for good_disc (construct good_disc) cl part addr
          \<lparr>m_last_decrypted_block = 0x78000, m_last_decrypted_block_data = replicate 0x7C00 2\<rparr>) \<and>
   loaded_for good_disc (construct good_disc) (ReadCall 0 4 (Partition 0x58000))
     (Partition 0x58000) 0
     \<lparr>m_last_decrypted_block = 0x78000, m_last_decrypted_block_data = replicate 0x7C00 2\<rparr> \<and>
   m_partition_keys (construct good_disc) (Partition 0x58000) = Some (replicate 16 2) \<and>
   holds_decryption good_disc (replicate 16 2)
     \<lparr>m_last_decrypted_block = 0x78000, m_last_decrypted_block_data = replicate 0x7C00 2\<rparr> \<and>
   \<not> holds_decryption good_disc (replicate 16 0)
     \<lparr>m_last_decrypted_block = 0x78000, m_last_decrypted_block_data = replicate 0x7C00 2\<rparr>"
proof -
  let ?calls = "[CheckIntegrityCall (Partition 0x50000), ReadCall 0 4 (Partition 0x58000)]"
  let ?c = "\<lparr>m_last_decrypted_block = 0x78000,
             m_last_decrypted_block_data = replicate 0x7C00 (2 :: u8)\<rparr>"
  have run: "foldl (run_call good_disc (construct good_disc)) (initial_cache []) ?calls = ?c"
    by (simp add: run_call_def good_disc_CheckIntegrity good_disc_read_second_after_first)
  have sentinel: "m_last_decrypted_block ?c \<noteq> UINT64_MAX"
    by (simp add: UINT64_MAX_def)
  have loaded: "\<exists>cl \<in> set ?calls. \<exists>part addr.
      loaded_for good_disc (construct good_disc) cl part addr ?c"
    using cache_invariant [of "[]" good_disc "construct good_disc" _ _ ?calls] sentinel
    unfolding run by blast
  have holds: "holds_decryption good_disc (replicate 16 2) ?c"
    and other: "\<not> holds_decryption good_disc (replicate 16 0) ?c"
    by (simp_all add: good_disc_holds_decryption)
  have by_read: "loaded_for good_disc (construct good_disc) (ReadCall 0 4 (Partition 0x58000))
      (Partition 0x58000) 0 ?c"
    using holds by (simp add: loaded_for_def call_asks_def good_disc_key(2))
  show ?thesis
    using run sentinel loaded by_read good_disc_key(2) holds other by blast
qed

text \<open>
  Claim C4 as stated fails: the cache is keyed by the disc offset alone, and a read does
  not stay within the data of its partition. On the image whose partitions at 0x50000 and
  0x58000 have one cluster each, at 0x70000 and at 0x78000, and different keys, a read of
  one byte of the first partition at logical offset 0x7C00 loads the cluster at 0x78000.
  The partition that contains this cluster is the second one, and the cache buffer is not
  the decryption of the cluster with the second partition's key, but with the first one's.
\<close>

theorem cache_other_partition_counterexample:
  "m_partition_keys (construct good_disc) =
     [Partition 0x50000 \<mapsto> replicate 16 0, Partition 0x58000 \<mapsto> replicate 16 2] \<and>
   foldl (run_call good_disc (construct good_disc)) (initial_cache [])
     [ReadCall 0x7C00 1 (Partition 0x50000)] =
     \<lparr>m_last_decrypted_block = 0x78000, m_last_decrypted_block_data = replicate 0x7C00 0\<rparr> \<and>
   m_last_decrypted_block
     \<lparr>m_last_decrypted_block = 0x78000, m_last_decrypted_block_data = replicate 0x7C00 (0 :: u8)\<rparr> \<noteq>
     UINT64_MAX \<and>
   partition_contains good_disc (Partition 0x58000) 0x78000 \<and>
   \<not> partition_contains good_disc (Partition 0x50000) 0x78000 \<and>
   \<not> holds_decryption good_disc (replicate 16 2)
       \<lparr>m_last_decrypted_block = 0x78000, m_last_decrypted_block_data = replicate 0x7C00 0\<rparr> \<and>
   holds_decryption good_disc (replicate 16 0)
     \<lparr>m_last_decrypted_block = 0x78000, m_last_decrypted_block_data = replicate 0x7C00 0\<rparr>"
proof -
  have keys: "m_partition_keys (construct good_disc) =
      [Partition 0x50000 \<mapsto> replicate 16 0, Partition 0x58000 \<mapsto> replicate 16 2]"
    by (simp add: good_disc_construct)
  have run: "foldl (run_call good_disc (construct good_disc)) (initial_cache [])
      [ReadCall 0x7C00 1 (Partition 0x50000)] =
      \<lparr>m_last_decrypted_block = 0x78000, m_last_decrypted_block_data = replicate 0x7C00 0\<rparr>"
    by (simp add: run_call_def good_disc_read_second_cluster)
  have sentinel: "m_last_decrypted_block
      \<lparr>m_last_decrypted_block = 0x78000,
        m_last_decrypted_block_data = replicate 0x7C00 (0 :: u8)\<rparr> \<noteq> UINT64_MAX"
    by (simp add: UINT64_MAX_def)
  have holds: "\<not> holds_decryption good_disc (replicate 16 2)
       \<lparr>m_last_decrypted_block = 0x78000, m_last_decrypted_block_data = replicate 0x7C00 0\<rparr>"
    "holds_decryption good_disc (replicate 16 0)
     \<lparr>m_last_decrypted_block = 0x78000, m_last_decrypted_block_data = replicate 0x7C00 0\<rparr>"
    by (simp_all add: good_disc_holds_decryption)
  show ?thesis
    using keys run sentinel good_disc_partition_contains holds by blast
qed

section \<open>Reads do not depend on how they are split\<close>

text \<open>
  Claim C5, as amended. For a partition of the partition map, an offset and a length whose
  sum does not exceed \<open>2^64\<close>, and a split point \<open>k\<close> up to the length: when the read of
  the whole range succeeds, from whatever cache, then the read of the first \<open>k\<close> bytes
  succeeds from that cache, the read of the remaining bytes succeeds from the cache the
  first one leaves, the bytes of the whole read are the bytes of the two in sequence, and
  the cache ends up the same.
\<close>

theorem read_split:
  assumes "m_partition_keys vol part = Some ctx"
    and "part \<noteq> PARTITION_NONE"
    and "k \<le> n"
    and "unat off + unat n \<le> 2 ^ 64"
    and "Read env vol c off n part = (True, bytes, c')"
  shows "\<exists>first rest c1.
     Read env vol c off k part = (True, first, c1) \<and>
     Read env vol c1 (off + k) (n - k) part = (True, rest, c') \<and>
     bytes = first @ rest"
proof -
  let ?p = "offset part"
  have whole: "Read_loop env ctx ?p off n c = (True, bytes, c')"
    using assms(1,2,5) by (simp add: Read_def)
  obtain ok first c1 where first: "Read_loop env ctx ?p off k c = (ok, first, c1)"
    by (cases "Read_loop env ctx ?p off k c") auto
  obtain ok' rest c2 where rest: "Read_loop env ctx ?p (off + k) (n - k) c1 = (ok', rest, c2)"
    by (cases "Read_loop env ctx ?p (off + k) (n - k) c1") auto
  have "(True, bytes, c') =
      then_read (ok, first, c1) (Read_loop env ctx ?p (off + k) (n - k))"
    using Read_loop_split [OF assms(3,4), of env ctx ?p c] whole first by simp
  then have "ok \<and> ok' \<and> bytes = first @ rest \<and> c' = c2"
    using rest by (cases ok) auto
  then show ?thesis
    using assms(1,2) first rest by (simp add: Read_def)
qed

theorem read_split_witness:
  "m_partition_keys (construct good_disc) (Partition 0x50000) = Some (replicate 16 0) \<and>
   Partition 0x50000 \<noteq> PARTITION_NONE \<and> (1 :: u64) \<le> 4 \<and>
   unat (0x7BFE :: u64) + unat (4 :: u64) \<le> 2 ^ 64 \<and>
   Read good_disc (construct good_disc) (initial_cache []) 0x7BFE 4 (Partition 0x50000) =
     (True, replicate 2 0 @ replicate 2 0,
      \<lparr>m_last_decrypted_block = 0x78000, m_last_decrypted_block_data = replicate 0x7C00 0\<rparr>) \<and>
   (\<exists>first rest c1.
      Read good_disc (construct good_disc) (initial_cache []) 0x7BFE 1 (Partition 0x50000) =
        (True, first, c1) \<and>
      Read good_disc (construct good_disc) c1 (0x7BFE + 1) (4 - 1) (Partition 0x50000) =
        (True, rest,
         \<lparr>m_last_decrypted_block = 0x78000,
           m_last_decrypted_block_data = replicate 0x7C00 0\<rparr>) \<and>
      replicate 2 0 @ replicate 2 0 = first @ rest)"
proof -
  have le: "(1 :: u64) \<le> 4"
    by simp
  have fits: "unat (0x7BFE :: u64) + unat (4 :: u64) \<le> 2 ^ 64"
    by simp
  have part: "Partition 0x50000 \<noteq> PARTITION_NONE"
    by simp
  show ?thesis
    using le fits part good_disc_key(1) good_disc_read_across [of "[]"]
      read_split [OF good_disc_key(1) part le fits good_disc_read_across [of "[]"]]
    by blast
qed

text \<open>
  Claim C5 as stated fails where the offset wraps. On the image that is readable
  everywhere, the 20 bytes at logical offset \<open>2^64 - 10\<close> of the partition at 0x50000 are
  read from one cluster and are all 1, while after the first 10 of them the offset is 0
  and the second read returns bytes of the first cluster, which are 0.
\<close>

theorem read_split_counterexample:
  "(10 :: u64) \<le> 20 \<and>
   m_partition_keys (construct endless_disc) (Partition 0x50000) = Some (replicate 16 0) \<and>
   Read endless_disc (construct endless_disc) (initial_cache []) 0xFFFFFFFFFFFFFFF6 20
     (Partition 0x50000) =
     (True, replicate 20 1,
      \<lparr>m_last_decrypted_block = 0x8421084210F0000,
        m_last_decrypted_block_data = replicate 0x7C00 1\<rparr>) \<and>
   Read endless_disc (construct endless_disc) (initial_cache []) 0xFFFFFFFFFFFFFFF6 10
     (Partition 0x50000) =
     (True, replicate 10 1,
      \<lparr>m_last_decrypted_block = 0x8421084210F0000,
        m_last_decrypted_block_data = replicate 0x7C00 1\<rparr>) \<and>
   Read endless_disc (construct endless_disc)
     \<lparr>m_last_decrypted_block = 0x8421084210F0000,
       m_last_decrypted_block_data = replicate 0x7C00 1\<rparr>
     (0xFFFFFFFFFFFFFFF6 + 10) (20 - 10) (Partition 0x50000) =
     (True, replicate 10 0,
      \<lparr>m_last_decrypted_block = 0x70000, m_last_decrypted_block_data = replicate 0x7C00 0\<rparr>) \<and>
   replicate 20 (1 :: u8) \<noteq> replicate 10 1 @ replicate 10 0"
proof -
  have "replicate 20 (1 :: u8) ! 10 \<noteq> (replicate 10 1 @ replicate 10 0) ! 10"
    by (simp add: nth_append)
  then have differ: "replicate 20 (1 :: u8) \<noteq> replicate 10 1 @ replicate 10 0"
    by metis
  have wrap: "(0xFFFFFFFFFFFFFFF6 :: u64) + 10 = 0" and rest: "(20 :: u64) - 10 = 10"
    by simp_all
  have after: "Read endless_disc (construct endless_disc)
     \<lparr>m_last_decrypted_block = 0x8421084210F0000,
       m_last_decrypted_block_data = replicate 0x7C00 1\<rparr>
     (0xFFFFFFFFFFFFFFF6 + 10) (20 - 10) (Partition 0x50000) =
     (True, replicate 10 0,
      \<lparr>m_last_decrypted_block = 0x70000, m_last_decrypted_block_data = replicate 0x7C00 0\<rparr>)"
    unfolding wrap rest by (rule endless_disc_read_after_wrap)
  have le: "(10 :: u64) \<le> 20"
    by simp
  show ?thesis
    using le differ after endless_disc_key endless_disc_read_wrapping [of "[]"]
      endless_disc_read_before_wrap [of "[]"]
    by blast
qed

section \<open>Raw-offset translation\<close>

text \<open>
  Claim C6, as amended. \<open>PartitionOffsetToRawOffset\<close> returns the offset unchanged for
  \<open>PARTITION_NONE\<close>; for a partition at \<open>p\<close> it returns
  \<open>p + 0x20000 + (off / 0x7C00) * 0x8000 + (off mod 0x7C00)\<close> in 64-bit arithmetic, so
  its difference from \<open>p + 0x20000\<close> is \<open>(off / 0x7C00) * 0x8000 + (off mod 0x7C00)\<close>
  modulo \<open>2^64\<close>. When the sum does not exceed the 64-bit range, the result is at
  least \<open>p + 0x20000\<close> and is the sum of the unbounded integers.
\<close>

theorem raw_offset_formula:
  fixes p off :: u64
  shows "PartitionOffsetToRawOffset off PARTITION_NONE = off \<and>
     PartitionOffsetToRawOffset off (Partition p) =
       p + 0x20000 + off div 0x7C00 * 0x8000 + off mod 0x7C00 \<and>
     PartitionOffsetToRawOffset off (Partition p) - (p + 0x20000) =
       off div 0x7C00 * 0x8000 + off mod 0x7C00 \<and>
     (unat p + 0x20000 + unat off div 0x7C00 * 0x8000 + unat off mod 0x7C00 < 2 ^ 64 \<longrightarrow>
        p + 0x20000 \<le> PartitionOffsetToRawOffset off (Partition p) \<and>
        unat (PartitionOffsetToRawOffset off (Partition p)) =
          unat p + 0x20000 + unat off div 0x7C00 * 0x8000 + unat off mod 0x7C00)"
proof -
  have eq: "PartitionOffsetToRawOffset off (Partition p) =
       p + 0x20000 + off div 0x7C00 * 0x8000 + off mod 0x7C00"
    by (simp add: PARTITION_DATA_OFFSET_def BLOCK_DATA_SIZE_def BLOCK_TOTAL_SIZE_def)
  have bounded: "p + 0x20000 \<le> PartitionOffsetToRawOffset off (Partition p) \<and>
        unat (PartitionOffsetToRawOffset off (Partition p)) =
          unat p + 0x20000 + unat off div 0x7C00 * 0x8000 + unat off mod 0x7C00"
    if fits: "unat p + 0x20000 + unat off div 0x7C00 * 0x8000 + unat off mod 0x7C00 < 2 ^ 64"
  proof -
    have q: "unat (off div 0x7C00) = unat off div 0x7C00"
      by (simp add: unat_div_distrib)
    have r: "unat (off mod 0x7C00) = unat off mod 0x7C00"
      by (simp add: unat_mod_distrib)
    have m: "unat (off div 0x7C00 * 0x8000) = unat off div 0x7C00 * 0x8000"
      using fits q by (simp add: unat_word_ariths)
    have b: "unat (p + 0x20000) = unat p + 0x20000"
      using fits by (simp add: unat_word_ariths)
    have d: "unat (off div 0x7C00 * 0x8000 + off mod 0x7C00) =
        unat off div 0x7C00 * 0x8000 + unat off mod 0x7C00"
      using fits m r by (simp add: unat_word_ariths)
    have s: "unat (p + 0x20000 + (off div 0x7C00 * 0x8000 + off mod 0x7C00)) =
        unat p + 0x20000 + unat off div 0x7C00 * 0x8000 + unat off mod 0x7C00"
      using fits b d by (simp add: unat_word_ariths)
    show ?thesis
      unfolding eq using s b by (simp add: word_le_nat_alt add.assoc)
  qed
  have none: "PartitionOffsetToRawOffset off PARTITION_NONE = off"
    by simp
  have delta: "PartitionOffsetToRawOffset off (Partition p) - (p + 0x20000) =
       off div 0x7C00 * 0x8000 + off mod 0x7C00"
    unfolding eq by simp
  show ?thesis
    using none eq delta bounded by blast
qed

theorem raw_offset_formula_witness:
  "unat (0x50000 :: u64) + 0x20000 + unat (0x7C05 :: u64) div 0x7C00 * 0x8000 +
     unat (0x7C05 :: u64) mod 0x7C00 < 2 ^ 64 \<and>
   (0x50000 :: u64) + 0x20000 \<le> PartitionOffsetToRawOffset 0x7C05 (Partition 0x50000) \<and>
   PartitionOffsetToRawOffset 0x7C05 (Partition 0x50000) = 0x78005"
  using raw_offset_formula [of "0x7C05" "0x50000"] by simp

text \<open>
  The lower bound of claim C6 fails where the 64-bit sum wraps: for the partition at
  0x50000 and the offset \<open>(2^49 - 1) * 0x7C00\<close> the raw offset is 0x68000, below
  \<open>0x50000 + 0x20000\<close>.
\<close>

theorem raw_offset_lower_bound_counterexample:
  "\<not> (0x50000 + PARTITION_DATA_OFFSET \<le>
        PartitionOffsetToRawOffset 0xF7FFFFFFFFFF8400 (Partition 0x50000))"
  by (simp add: PARTITION_DATA_OFFSET_def BLOCK_DATA_SIZE_def BLOCK_TOTAL_SIZE_def)

section \<open>Errors during discovery are local\<close>

text \<open>
  Claim C7. \<open>construct\<close> is a total function of the collaborators: construction yields
  a volume for every blob. A table entry that fails any check (its partition offset, its
  ticket, the location of its TMD or the TMD cannot be read; its ticket is not valid; its
  title key is not 16 bytes long) leaves the volume exactly as it was, and after a rejected
  TMD size the volume differs only by one more alert. However an entry fares, the
  partitions stored before it are still stored. For an image with a partition table, the
  partitions of the volume are those of all the entries that pass every check, and there
  is one alert for each entry with a rejected TMD size, in scan order. A group whose
  count or table pointer cannot be read leaves the volume as it was.
\<close>

theorem discovery_errors_are_local:
  "(entry_outcome env tbl i = Inl err \<longrightarrow>
      scan_entry env tbl vol i =
        (if err = TMDSizeInvalid
         then vol\<lparr>panic_alerts := panic_alerts vol @ [''Invalid TMD size'']\<rparr>
         else vol)) \<and>
   dom (m_partition_keys vol) \<subseteq> dom (m_partition_keys (scan_entry env tbl vol i)) \<and>
   (ReadSwapped_u32 env (ucast (0x40000 + g * 8)) = None \<or>
    ReadSwapped_u32 env (ucast (0x40000 + g * 8 + 4)) = None \<longrightarrow>
      scan_group env vol g = vol) \<and>
   (ReadSwapped_u32 env 0x60 = Some 0 \<longrightarrow>
      dom (m_partition_keys (construct env)) =
        entry_partition env ` {e \<in> set (table_entries env). entry_loads env e} \<and>
      panic_alerts (construct env) =
        map (\<lambda>e. ''Invalid TMD size'')
          (filter (\<lambda>e. entry_outcome env (fst e) (snd e) = Inl TMDSizeInvalid)
             (table_entries env)))"
proof (intro conjI impI)
  assume "entry_outcome env tbl i = Inl err"
  then show "scan_entry env tbl vol i =
        (if err = TMDSizeInvalid
         then vol\<lparr>panic_alerts := panic_alerts vol @ [''Invalid TMD size'']\<rparr>
         else vol)"
    by (simp add: scan_entry_outcome)
next
  show "dom (m_partition_keys vol) \<subseteq> dom (m_partition_keys (scan_entry env tbl vol i))"
    using scan_step_keys [of env vol "(tbl, i)"] by (auto simp: scan_step_def)
next
  assume "ReadSwapped_u32 env (ucast (0x40000 + g * 8)) = None \<or>
    ReadSwapped_u32 env (ucast (0x40000 + g * 8 + 4)) = None"
  then show "scan_group env vol g = vol"
    by (auto simp: scan_group_def split: option.split)
next
  assume magic: "ReadSwapped_u32 env 0x60 = Some 0"
  show "dom (m_partition_keys (construct env)) =
        entry_partition env ` {e \<in> set (table_entries env). entry_loads env e}"
    by (simp add: construct_entries [OF magic] scan_keys initial_volume_def)
  show "panic_alerts (construct env) =
        map (\<lambda>e. ''Invalid TMD size'')
          (filter (\<lambda>e. entry_outcome env (fst e) (snd e) = Inl TMDSizeInvalid)
             (table_entries env))"
    by (simp add: construct_entries [OF magic] scan_alerts initial_volume_def)
qed

theorem discovery_errors_are_local_witness:
  "entry_outcome bad_ticket_disc 0x40020 0 = Inl TicketInvalid \<and>
   scan_entry bad_ticket_disc 0x40020 initial_volume 0 = initial_volume \<and>
   ReadSwapped_u32 bad_ticket_disc 0x60 = Some 0 \<and>
   ReadSwapped_u32 (bad_ticket_disc\<lparr>blob_Read := \<lambda>off len. None\<rparr>)
     (ucast (0x40000 + (0 :: u32) * 8)) = None \<and>
   scan_group (bad_ticket_disc\<lparr>blob_Read := \<lambda>off len. None\<rparr>) initial_volume 0 =
     initial_volume \<and>
   dom (m_partition_keys (construct bad_ticket_disc)) = {Partition 0x58000} \<and>
   panic_alerts (construct bad_ticket_disc) = [] \<and>
   entry_outcome bad_tmd_disc 0x40020 0 = Inl TMDSizeInvalid \<and>
   scan_entry bad_tmd_disc 0x40020 initial_volume 0 =
     initial_volume\<lparr>panic_alerts := [''Invalid TMD size'']\<rparr>"
proof -
  have size: "entry_outcome bad_tmd_disc 0x40020 0 = Inl TMDSizeInvalid"
    by (simp add: bad_tmd_disc_def disc_entry_0)
  have alert: "scan_entry bad_tmd_disc 0x40020 initial_volume 0 =
     initial_volume\<lparr>panic_alerts := [''Invalid TMD size'']\<rparr>"
    using size
      discovery_errors_are_local
        [of bad_tmd_disc "0x40020" 0 TMDSizeInvalid initial_volume 0]
    by (simp add: initial_volume_def)
  have out: "entry_outcome bad_ticket_disc 0x40020 0 = Inl TicketInvalid"
    by (simp add: bad_ticket_disc_def disc_entry_0)
  have magic: "ReadSwapped_u32 bad_ticket_disc 0x60 = Some 0"
    by (simp add: bad_ticket_disc_def disc_magic)
  have unreadable: "ReadSwapped_u32 (bad_ticket_disc\<lparr>blob_Read := \<lambda>off len. None\<rparr>)
     (ucast (0x40000 + (0 :: u32) * 8)) = None"
    by (simp add: ReadSwapped_u32_def)
  have keys: "dom (m_partition_keys (construct bad_ticket_disc)) = {Partition 0x58000}"
    by (simp add: bad_ticket_disc_construct)
  have alerts: "panic_alerts (construct bad_ticket_disc) = []"
    by (simp add: bad_ticket_disc_construct)
  have skip: "scan_entry bad_ticket_disc 0x40020 initial_volume 0 = initial_volume"
    using out
      discovery_errors_are_local
        [of bad_ticket_disc "0x40020" 0 TicketInvalid initial_volume 0]
    by simp
  have group: "scan_group (bad_ticket_disc\<lparr>blob_Read := \<lambda>off len. None\<rparr>) initial_volume 0 =
     initial_volume"
    by (simp add: scan_group_def ReadSwapped_u32_def)
  show ?thesis
    using out magic unreadable keys alerts skip group size alert by simp
qed

section \<open>Unknown partitions\<close>

text \<open>
  Claim C8. On a constructed volume, for a partition descriptor that is not
  \<open>PARTITION_NONE\<close> and is not a key of the partition map: \<open>Read\<close> returns false for
  every offset and length (also length 0) without storing a byte or touching the cache,
  \<open>CheckIntegrity\<close> returns false, \<open>GetTicket\<close> and \<open>GetTMD\<close> return the sentinel
  views, which are not valid, and \<open>GetTitleID\<close> returns nothing.
\<close>

theorem unknown_partition_is_rejected:
  assumes "part \<noteq> PARTITION_NONE"
    and "part \<notin> dom (m_partition_keys (construct env))"
  shows "Read env (construct env) c off len part = (False, [], c) \<and>
     Read env (construct env) c off 0 part = (False, [], c) \<and>
     CheckIntegrity env (construct env) c part = (False, [], c) \<and>
     GetTicket (construct env) part = INVALID_TICKET \<and>
     \<not> Ticket_IsValid env INVALID_TICKET \<and>
     GetTMD (construct env) part = INVALID_TMD \<and>
     \<not> TMD_IsValid INVALID_TMD \<and>
     GetTitleID env (construct env) part = None"
proof -
  have keys: "m_partition_keys (construct env) part = None"
    using assms(2) by (simp add: domIff)
  have "part \<notin> dom (m_partition_tickets (construct env))"
    and "part \<notin> dom (m_partition_tmds (construct env))"
    using assms(2) construct_maps_agree [of env] by (simp_all add: maps_agree_def)
  then have tickets: "m_partition_tickets (construct env) part = None"
    and tmds: "m_partition_tmds (construct env) part = None"
    by (simp_all add: domIff)
  have invalid: "\<not> Ticket_IsValid env INVALID_TICKET"
    by (simp add: Ticket_IsValid_def INVALID_TICKET_def)
  have ticket: "GetTicket (construct env) part = INVALID_TICKET"
    by (simp add: GetTicket_def tickets)
  have "GetTitleID env (construct env) part = None"
    using invalid by (simp add: GetTitleID_def ticket)
  moreover have "Read env (construct env) c off l part = (False, [], c)" for l
    using assms(1) by (simp add: Read_def keys)
  moreover have "CheckIntegrity env (construct env) c part = (False, [], c)"
    by (simp add: CheckIntegrity_def keys)
  moreover have "GetTMD (construct env) part = INVALID_TMD"
    by (simp add: GetTMD_def tmds)
  moreover have "\<not> TMD_IsValid INVALID_TMD"
    by (simp add: TMD_IsValid_def INVALID_TMD_def)
  ultimately show ?thesis
    using invalid ticket by simp
qed

theorem unknown_partition_is_rejected_witness:
  "Partition 0x1234 \<noteq> PARTITION_NONE \<and>
   Partition 0x1234 \<notin> dom (m_partition_keys (construct good_disc)) \<and>
   Read good_disc (construct good_disc) (initial_cache []) 0 0 (Partition 0x1234) =
     (False, [], initial_cache []) \<and>
   CheckIntegrity good_disc (construct good_disc) (initial_cache []) (Partition 0x1234) =
     (False, [], initial_cache []) \<and>
   GetTitleID good_disc (construct good_disc) (Partition 0x1234) = None"
proof -
  have unknown: "Partition 0x1234 \<notin> dom (m_partition_keys (construct good_disc))"
    by (simp add: good_disc_construct)
  show ?thesis
    using unknown
      unknown_partition_is_rejected
        [of "Partition 0x1234" good_disc "initial_cache []" 0 0]
    by simp
qed

section \<open>A failing read keeps what it has done\<close>

text \<open>
  Claim C9. Whenever a read of a partition of the partition map returns false, there is a
  length \<open>k\<close> below the requested one such that the bytes stored and the cache left are
  exactly those of the successful read of the first \<open>k\<close> bytes, and the cluster of offset
  \<open>offset + k\<close>, at \<open>p.offset + 0x20000 + ((offset + k) / 0x7C00) * 0x8000\<close>, is not the
  cached one and cannot be read from the blob reader. So the bytes copied before the
  failing fetch stay in the buffer, and the cache is the one the served part left, with
  the last cluster it decrypted: nothing is rolled back.
\<close>

theorem failed_read_keeps_progress:
  assumes "m_partition_keys vol part = Some ctx"
    and "part \<noteq> PARTITION_NONE"
    and "Read env vol c off n part = (False, written, c')"
  shows "\<exists>k. k < n \<and> Read env vol c off k part = (True, written, c') \<and>
     m_last_decrypted_block c' \<noteq> offset part + 0x20000 + (off + k) div 0x7C00 * 0x8000 \<and>
     blob_Read env (offset part + 0x20000 + (off + k) div 0x7C00 * 0x8000) 0x8000 = None"
proof -
  have "Read_loop env ctx (offset part) off n c = (False, written, c')"
    using assms by (simp add: Read_def)
  from Read_loop_failure [OF this]
  obtain k where k: "k < n"
    and served: "Read_loop env ctx (offset part) off k c = (True, written, c')"
    and fails: "fetch_block env ctx c' (block_offset_on_disc (offset part) (off + k)) = None"
    by blast
  have "Read env vol c off k part = (True, written, c')"
    using assms(1,2) served by (simp add: Read_def)
  moreover have
    "m_last_decrypted_block c' \<noteq> offset part + 0x20000 + (off + k) div 0x7C00 * 0x8000 \<and>
     blob_Read env (offset part + 0x20000 + (off + k) div 0x7C00 * 0x8000) 0x8000 = None"
    using fails
    by (auto simp: fetch_block_def geometry_defs split: if_splits option.splits)
  ultimately show ?thesis
    using k by blast
qed

text \<open>
  On the image whose second partition, with the key that adds 2 to every byte, has one
  readable cluster: eight bytes from four bytes before its end. The read fails, the four
  bytes of the readable cluster are stored, and the cache, empty before, holds that
  cluster; the read of the first four bytes alone succeeds with the same bytes and cache.
\<close>

theorem failed_read_keeps_progress_witness:
  "m_partition_keys (construct good_disc) (Partition 0x58000) = Some (replicate 16 2) \<and>
   Partition 0x58000 \<noteq> PARTITION_NONE \<and>
   Read good_disc (construct good_disc) (initial_cache []) 0x7BFC 8 (Partition 0x58000) =
     (False, replicate 4 2,
      \<lparr>m_last_decrypted_block = 0x78000, m_last_decrypted_block_data = replicate 0x7C00 2\<rparr>) \<and>
   (\<exists>k. k < 8 \<and>
      Read good_disc (construct good_disc) (initial_cache []) 0x7BFC k (Partition 0x58000) =
        (True, replicate 4 2,
         \<lparr>m_last_decrypted_block = 0x78000,
           m_last_decrypted_block_data = replicate 0x7C00 2\<rparr>) \<and>
      (0x78000 :: u64) \<noteq> 0x58000 + 0x20000 + (0x7BFC + k) div 0x7C00 * 0x8000 \<and>
      blob_Read good_disc (0x58000 + 0x20000 + (0x7BFC + k) div 0x7C00 * 0x8000) 0x8000 = None) \<and>
   Read good_disc (construct good_disc) (initial_cache []) 0x7BFC 4 (Partition 0x58000) =
     (True, replicate 4 2,
      \<lparr>m_last_decrypted_block = 0x78000, m_last_decrypted_block_data = replicate 0x7C00 2\<rparr>) \<and>
   m_last_decrypted_block (initial_cache []) \<noteq> 0x78000"
proof -
  have part: "Partition 0x58000 \<noteq> PARTITION_NONE"
    by simp
  have fresh: "m_last_decrypted_block (initial_cache []) \<noteq> 0x78000"
    by (simp add: initial_cache_def UINT64_MAX_def)
  have prefix: "\<exists>k. k < 8 \<and>
      Read good_disc (construct good_disc) (initial_cache []) 0x7BFC k (Partition 0x58000) =
        (True, replicate 4 2,
         \<lparr>m_last_decrypted_block = 0x78000,
           m_last_decrypted_block_data = replicate 0x7C00 2\<rparr>) \<and>
      (0x78000 :: u64) \<noteq> 0x58000 + 0x20000 + (0x7BFC + k) div 0x7C00 * 0x8000 \<and>
      blob_Read good_disc (0x58000 + 0x20000 + (0x7BFC + k) div 0x7C00 * 0x8000) 0x8000 = None"
    using failed_read_keeps_progress [OF good_disc_key(2) part good_disc_read_failing [of "[]"]]
    by simp
  show ?thesis
    using part fresh prefix good_disc_key(2) good_disc_read_failing [of "[]"]
      good_disc_read_served [of "[]"]
    by blast
qed

section \<open>An unreadable magic word\<close>

text \<open>
  Claim C10. When the big-endian word at 0x60 cannot be read, \<open>construct\<close> yields the
  same volume as for an image whose word at 0x60 is not zero: no partitions and the game
  partition NONE. Every read for the game partition of that volume is the blob reader's
  read of the same offset and length, and a read for any other partition returns false
  without decrypting anything.
\<close>

theorem unreadable_magic_is_no_partitions:
  assumes "ReadSwapped_u32 env 0x60 = None"
    and "ReadSwapped_u32 env' 0x60 = Some magic"
    and "magic \<noteq> 0"
  shows "construct env = initial_volume \<and>
     construct env' = initial_volume \<and>
     dom (m_partition_keys (construct env)) = {} \<and>
     GetGamePartition (construct env) = PARTITION_NONE \<and>
     Read env (construct env) c off len (GetGamePartition (construct env)) =
       (case blob_Read env off len of
          None \<Rightarrow> (False, [], c)
        | Some bytes \<Rightarrow> (True, bytes, c)) \<and>
     (part \<noteq> PARTITION_NONE \<longrightarrow>
        Read env (construct env) c off len part = (False, [], c))"
proof -
  have a: "construct env = initial_volume"
    using assms(1) by (simp add: construct_def)
  have b: "construct env' = initial_volume"
    using assms(2,3) by (simp add: construct_def)
  show ?thesis
    unfolding a b
    by (simp add: initial_volume_def GetGamePartition_def Read_def)
qed

theorem unreadable_magic_is_no_partitions_witness:
  "ReadSwapped_u32 (good_disc\<lparr>blob_Read := \<lambda>off len. None\<rparr>) 0x60 = None \<and>
   ReadSwapped_u32 (good_disc\<lparr>blob_Read := \<lambda>off len. Some [0, 0, 0, 1]\<rparr>) 0x60 = Some 1 \<and>
   (1 :: u32) \<noteq> 0 \<and> Partition 0x50000 \<noteq> PARTITION_NONE \<and>
   construct (good_disc\<lparr>blob_Read := \<lambda>off len. None\<rparr>) =
     construct (good_disc\<lparr>blob_Read := \<lambda>off len. Some [0, 0, 0, 1]\<rparr>) \<and>
   Read (good_disc\<lparr>blob_Read := \<lambda>off len. None\<rparr>)
     (construct (good_disc\<lparr>blob_Read := \<lambda>off len. None\<rparr>)) (initial_cache []) 0 6
     (Partition 0x50000) = (False, [], initial_cache [])"
proof -
  have none: "ReadSwapped_u32 (good_disc\<lparr>blob_Read := \<lambda>off len. None\<rparr>) 0x60 = None"
    by (simp add: ReadSwapped_u32_def)
  have one: "ReadSwapped_u32 (good_disc\<lparr>blob_Read := \<lambda>off len. Some [0, 0, 0, 1]\<rparr>) 0x60 = Some 1"
    by (simp add: ReadSwapped_u32_def from_be_4)
  have nz: "(1 :: u32) \<noteq> 0"
    by simp
  note t = unreadable_magic_is_no_partitions
      [OF none one nz, of "initial_cache []" 0 6 "Partition 0x50000"]
  have same: "construct (good_disc\<lparr>blob_Read := \<lambda>off len. None\<rparr>) =
     construct (good_disc\<lparr>blob_Read := \<lambda>off len. Some [0, 0, 0, 1]\<rparr>)"
    using t by argo
  have fails: "Read (good_disc\<lparr>blob_Read := \<lambda>off len. None\<rparr>)
     (construct (good_disc\<lparr>blob_Read := \<lambda>off len. None\<rparr>)) (initial_cache []) 0 6
     (Partition 0x50000) = (False, [], initial_cache [])"
    using t by blast
  show ?thesis
    using none one nz same fails by blast
qed

end
